theory Spec2Isabelle
  imports Main "HOL-Library.AList"
begin

section \<open>domain/cmd.go: command types, statuses and exit codes\<close>

text \<open>
  \<^verbatim>\<open>type CmdType string\<close> and \<^verbatim>\<open>type CmdStatus string\<close>: both are Go strings, that is
  byte sequences, and are kept as such.
\<close>

type_synonym CmdType = string

type_synonym CmdStatus = string

definition CmdTypeShell :: CmdType where
  "CmdTypeShell = ''SHELL''"

definition CmdTypeKill :: CmdType where
  "CmdTypeKill = ''SHELL''"

definition CmdTypeClose :: CmdType where
  "CmdTypeClose = ''SHELL''"

definition CmdStatusPending :: CmdStatus where
  "CmdStatusPending = ''PENDING''"

definition CmdStatusRunning :: CmdStatus where
  "CmdStatusRunning = ''RUNNING''"

definition CmdStatusSuccess :: CmdStatus where
  "CmdStatusSuccess = ''SUCCESS''"

definition CmdStatusSkipped :: CmdStatus where
  "CmdStatusSkipped = ''SKIPPED''"

definition CmdStatusException :: CmdStatus where
  "CmdStatusException = ''EXCEPTION''"

definition CmdStatusKilled :: CmdStatus where
  "CmdStatusKilled = ''KILLED''"

definition CmdStatusTimeout :: CmdStatus where
  "CmdStatusTimeout = ''TIMEOUT''"

text \<open>The exit codes are untyped Go constants used as \<^verbatim>\<open>int\<close>; no arithmetic is done on them.\<close>

definition CmdExitCodeUnknow :: int where
  "CmdExitCodeUnknow = -1"

definition CmdExitCodeTimeOut :: int where
  "CmdExitCodeTimeOut = -100"

definition CmdExitCodeKilled :: int where
  "CmdExitCodeKilled = -1"

definition CmdExitCodeSuccess :: int where
  "CmdExitCodeSuccess = 0"

text \<open>
  \<^verbatim>\<open>domain.Variables\<close> is a Go \<^verbatim>\<open>map[string]string\<close>. It is kept as an association list
  with one entry per key, so that it can be rendered as the \<^verbatim>\<open>KEY=VALUE\<close> array; the order of
  the list stands for the order in which Go happens to iterate the map.
\<close>

type_synonym Variables = "(string \<times> string) list"

text \<open>Times are wall-clock readings in seconds; \<open>0\<close> is Go's zero \<^verbatim>\<open>time.Time\<close>.\<close>

type_synonym Time = nat

record Cmd =
  ID :: string
  AllowFailure :: bool
  Plugin :: string

definition HasPlugin :: "'a Cmd_scheme \<Rightarrow> bool" where
  "HasPlugin cmd = (Plugin cmd \<noteq> '''')"

text \<open>
  \<^verbatim>\<open>domain.DockerOption\<close>: the type declaration is not among the sources; the fields are the
  ones the container executor and its test read.
\<close>

record DockerOption =
  Image :: string
  Entrypoint :: "string list"
  Ports :: "string list"
  NetworkMode :: string
  IsStopContainer :: bool
  IsDeleteContainer :: bool

text \<open>
  \<^verbatim>\<open>CmdIn\<close> embeds \<^verbatim>\<open>Cmd\<close>. \<open>FlowId\<close>, \<open>ContainerId\<close> and \<open>Docker\<close> are the fields the
  container executor reads from it. \<open>Docker\<close> is a pointer (\<^verbatim>\<open>*domain.DockerOption\<close>, as the
  literal \<^verbatim>\<open>&domain.DockerOption{...}\<close> of the test shows) and can be nil; reading a field
  through a nil pointer panics.
\<close>

record CmdIn = Cmd +
  Type :: CmdType
  Scripts :: "string list"
  WorkDir :: string
  Timeout :: int
  Inputs :: Variables
  EnvFilters :: "string list"
  FlowId :: string
  ContainerId :: string
  Docker :: "DockerOption option"

text \<open>
  \<^verbatim>\<open>ExecutedCmd\<close> embeds \<^verbatim>\<open>Cmd\<close>. The container executor also writes the id of the
  container it used into the result (\<^verbatim>\<open>d.CmdResult.ContainerId\<close>); that field is
  \<open>ResultContainerId\<close> here, since \<open>ContainerId\<close> names the field of \<open>CmdIn\<close>.
\<close>

record ExecutedCmd = Cmd +
  ProcessId :: int
  Status :: CmdStatus
  Code :: int
  Output :: Variables
  StartAt :: Time
  FinishAt :: Time
  Error :: string
  LogSize :: int
  ResultContainerId :: string

section \<open>Errors, contexts and the Docker client\<close>

text \<open>
  Go errors as values. \<open>DeadlineExceeded\<close> and \<open>Canceled\<close> are the two values of package
  \<^verbatim>\<open>context\<close> that the executor compares with \<^verbatim>\<open>==\<close>; \<open>ErrContainerNotFound\<close> is the error
  \<^verbatim>\<open>client.IsErrContainerNotFound\<close> recognises; \<open>NilPointerDereference\<close> is the run-time
  error of Go for a read through a nil pointer; \<open>OtherError\<close> is any other error. Every
  error has a message (\<^verbatim>\<open>err.Error()\<close>).
\<close>

datatype error =
    DeadlineExceeded
  | Canceled
  | ErrContainerNotFound string
  | NilPointerDereference
  | OtherError string

fun errorMessage :: "error \<Rightarrow> string" where
  "errorMessage DeadlineExceeded = ''context deadline exceeded''"
| "errorMessage Canceled = ''context canceled''"
| "errorMessage (ErrContainerNotFound msg) = msg"
| "errorMessage NilPointerDereference =
     ''runtime error: invalid memory address or nil pointer dereference''"
| "errorMessage (OtherError msg) = msg"

fun IsErrContainerNotFound :: "error option \<Rightarrow> bool" where
  "IsErrContainerNotFound (Some (ErrContainerNotFound msg)) = True"
| "IsErrContainerNotFound err = False"

text \<open>
  The executor's \<^verbatim>\<open>context\<close> field holds either the job's context, which the caller can
  cancel and which carries the deadline, or \<^verbatim>\<open>context.Background()\<close>.
\<close>

datatype Context = JobContext | Background

text \<open>Readers (\<^verbatim>\<open>io.Reader\<close>) are the bytes they deliver.\<close>

type_synonym reader = string

text \<open>\<^verbatim>\<open>time.Duration\<close> counts nanoseconds.\<close>

type_synonym Duration = int

definition Second :: Duration where
  "Second = 1000000000"

record ContainerConfig =
  ConfigImage :: string
  Env :: "string list"
  ConfigEntrypoint :: "string list"
  ExposedPorts :: "string list"
  Tty :: bool
  AttachStdin :: bool
  AttachStderr :: bool
  AttachStdout :: bool
  OpenStdin :: bool
  StdinOnce :: bool
  WorkingDir :: string

record HostConfig =
  ConfigNetworkMode :: string
  PortBindings :: "string list"
  Binds :: "string list"

record ExecConfig =
  ExecTty :: bool
  ExecAttachStdin :: bool
  ExecAttachStderr :: bool
  ExecAttachStdout :: bool
  ExecCmd :: "string list"

text \<open>Of \<^verbatim>\<open>types.ContainerJSON\<close> the executor reads \<^verbatim>\<open>ID\<close> and \<^verbatim>\<open>State.Status\<close>.\<close>

record ContainerJSON =
  InspectID :: string
  StateStatus :: string

text \<open>Of \<^verbatim>\<open>types.ContainerExecInspect\<close> it reads \<^verbatim>\<open>Running\<close>, \<^verbatim>\<open>ExitCode\<close> and \<^verbatim>\<open>Pid\<close>.\<close>

record ContainerExecInspect =
  Running :: bool
  ExitCode :: int
  Pid :: int

record Volume =
  VolumeName :: string

text \<open>
  \<^verbatim>\<open>DockerVolume\<close>: its declaration and its methods \<^verbatim>\<open>toBindStr()\<close> and \<^verbatim>\<open>scriptPath()\<close>
  are not among the sources; what the two methods return for a volume is carried by the
  volume.
\<close>

record DockerVolume =
  Name :: string
  Script :: string
  toBindStr :: string
  scriptPath :: string

text \<open>
  Everything the executor does to the outside is recorded, in order, in a trace: the calls
  of the Docker client with their arguments, and the calls into the log and command
  pipeline of \<^verbatim>\<open>BaseExecutor\<close> (\<^verbatim>\<open>stdOutWg.Add\<close>, \<^verbatim>\<open>writeLog\<close>, \<^verbatim>\<open>writeCmd\<close>,
  \<^verbatim>\<open>closeChannels\<close>), whose goroutines are outside this embedding. Logging
  (\<^verbatim>\<open>util.LogInfo\<close> and the like) touches neither the executor nor the daemon and is left
  out.
\<close>

datatype event =
    WgAdd nat
  | WriteLog reader
  | WriteCmd "string list" "string list"
  | CloseChannels
  | Sleep Duration
  | ImagePull Context string
  | ContainerInspect Context string
  | ContainerRestart Context string Duration
  | ContainerRemove Context string bool
  | ContainerCreate Context "ContainerConfig option" "HostConfig option"
  | ContainerStart Context string
  | CopyToContainer Context string string reader bool
  | ContainerExecCreate Context string ExecConfig
  | ContainerExecAttach Context string ExecConfig
  | ContainerExecInspect Context string
  | CopyFromContainer Context string string
  | ContainerStop Context string "Duration option"
  | VolumeList Context string

text \<open>
  The Docker daemon behind \<^verbatim>\<open>*client.Client\<close> is any deterministic environment: each
  method's answer is a function of the trace so far and of the arguments of the call. An
  answer is the error the method returns (\<open>Inl\<close>, or \<open>Some\<close> for a method that returns
  only an error) or its value.
\<close>

record daemon =
  onImagePull :: "event list \<Rightarrow> Context \<Rightarrow> string \<Rightarrow> error + reader"
  onContainerInspect :: "event list \<Rightarrow> Context \<Rightarrow> string \<Rightarrow> error + ContainerJSON"
  onContainerRestart :: "event list \<Rightarrow> Context \<Rightarrow> string \<Rightarrow> Duration \<Rightarrow> error option"
  onContainerRemove :: "event list \<Rightarrow> Context \<Rightarrow> string \<Rightarrow> bool \<Rightarrow> error option"
  onContainerCreate ::
    "event list \<Rightarrow> Context \<Rightarrow> ContainerConfig option \<Rightarrow> HostConfig option \<Rightarrow> error + string"
  onContainerStart :: "event list \<Rightarrow> Context \<Rightarrow> string \<Rightarrow> error option"
  onCopyToContainer ::
    "event list \<Rightarrow> Context \<Rightarrow> string \<Rightarrow> string \<Rightarrow> reader \<Rightarrow> bool \<Rightarrow> error option"
  onContainerExecCreate :: "event list \<Rightarrow> Context \<Rightarrow> string \<Rightarrow> ExecConfig \<Rightarrow> error + string"
  onContainerExecAttach :: "event list \<Rightarrow> Context \<Rightarrow> string \<Rightarrow> ExecConfig \<Rightarrow> error + reader"
  onContainerExecInspect ::
    "event list \<Rightarrow> Context \<Rightarrow> string \<Rightarrow> error + ContainerExecInspect"
  onCopyFromContainer :: "event list \<Rightarrow> Context \<Rightarrow> string \<Rightarrow> string \<Rightarrow> error + reader"
  onContainerStop :: "event list \<Rightarrow> Context \<Rightarrow> string \<Rightarrow> Duration option \<Rightarrow> error option"
  onVolumeList :: "event list \<Rightarrow> Context \<Rightarrow> string \<Rightarrow> error + Volume list"

text \<open>
  The host side: functions of this repository's \<^verbatim>\<open>util\<close> package and of imported
  libraries that the executor calls and the sources do not hold, the file system that
  \<^verbatim>\<open>tarArchiveFromPath\<close> walks, and the wall clock, read as a function of the trace.
\<close>

record host =
  ParseString :: "string \<Rightarrow> string"
  ParseStringWithSource :: "string \<Rightarrow> Variables \<Rightarrow> string"
  ParsePortSpecs :: "string list \<Rightarrow> error + (string list \<times> string list)"
  tarArchiveFromPath :: "string \<Rightarrow> error + reader"
  readEnvFromReader :: "reader \<Rightarrow> string list \<Rightarrow> Variables"
  Now :: "event list \<Rightarrow> Time"

section \<open>The container executor\<close>

definition dockerWorkspace :: string where
  "dockerWorkspace = ''/ws''"

definition dockerPluginDir :: string where
  "dockerPluginDir = dockerWorkspace @ ''/.plugins''"

definition dockerEnvFile :: string where
  "dockerEnvFile = ''/tmp/.env''"

text \<open>
  \<^verbatim>\<open>DockerExecutor\<close> with the fields of the embedded \<^verbatim>\<open>BaseExecutor\<close> that the container
  executor uses (\<open>ctx\<close> for \<^verbatim>\<open>context\<close>, \<open>inCmd\<close>, \<open>vars\<close>, \<open>CmdResult\<close>, \<open>pluginDir\<close>). The pointers
  \<open>cli\<close>, \<open>containerConfig\<close> and \<open>hostConfig\<close> are nil until \<^verbatim>\<open>Init\<close> sets them. \<open>trace\<close> is
  the record of effects described above.
\<close>

record DockerExecutor =
  ctx :: Context
  inCmd :: CmdIn
  vars :: Variables
  CmdResult :: ExecutedCmd
  pluginDir :: string
  volumes :: "DockerVolume list"
  flowVolume :: Volume
  cli :: "daemon option"
  containerConfig :: "ContainerConfig option"
  hostConfig :: "HostConfig option"
  containerId :: string
  workDir :: string
  envFile :: string
  trace :: "event list"

subsection \<open>Helpers that the sources call and do not hold\<close>

text \<open>
  Modelled from the spec: \<^verbatim>\<open>util.PanicIfErr\<close> is not among the sources. The spec (9) speaks
  of "panic-based error propagation in source": a returned error becomes a panic with that
  error. A function that can panic returns \<open>Inl\<close> of the error beside the executor as it
  stood at the panic.
\<close>

definition PanicIfErr :: "error option \<Rightarrow> error + unit" where
  "PanicIfErr err = (case err of None \<Rightarrow> Inr () | Some e \<Rightarrow> Inl e)"

text \<open>
  Modelled from the spec: \<^verbatim>\<open>util.IsEmptyString\<close> is not among the sources. The spec (4.3,
  step 3) says "if \<^verbatim>\<open>containerId\<close> is set".
\<close>

definition IsEmptyString :: "string \<Rightarrow> bool" where
  "IsEmptyString s = (s = [])"

text \<open>
  Modelled from the spec: \<^verbatim>\<open>domain.VarAgentJobDir\<close> and \<^verbatim>\<open>domain.VarAgentPluginDir\<close>
  are not among the sources. The spec (6) names the two variables.
\<close>

definition VarAgentJobDir :: string where
  "VarAgentJobDir = ''AGENT_JOB_DIR''"

definition VarAgentPluginDir :: string where
  "VarAgentPluginDir = ''AGENT_PLUGIN_DIR''"

text \<open>
  Modelled from the spec: \<^verbatim>\<open>Variables.ToStringArray\<close> is not among the sources. The spec (3)
  says "serialisable as the conventional \<^verbatim>\<open>KEY=VALUE\<close> sequence".
\<close>

definition ToStringArray :: "Variables \<Rightarrow> string list" where
  "ToStringArray vs = map (\<lambda>(k, v). k @ ''='' @ v) vs"

text \<open>
  Modelled from the spec: the constant \<^verbatim>\<open>linuxBash\<close> is not among the sources. The spec
  (4.2) says the interpreter is conventionally \<^verbatim>\<open>bash\<close>.
\<close>

definition linuxBash :: string where
  "linuxBash = ''/bin/bash''"

text \<open>
  Modelled from the spec: \<^verbatim>\<open>ExecutedCmd.IsFinishStatus\<close> is not among the sources. The spec
  (glossary) says "Terminal status: one of Success, Exception, Killed, Timeout".
\<close>

definition IsFinishStatus :: "ExecutedCmd \<Rightarrow> bool" where
  "IsFinishStatus r =
     (Status r = CmdStatusSuccess \<or> Status r = CmdStatusException \<or>
      Status r = CmdStatusKilled \<or> Status r = CmdStatusTimeout)"

text \<open>
  Modelled from the spec: the status setters of \<^verbatim>\<open>BaseExecutor\<close> (\<^verbatim>\<open>toStartStatus\<close>,
  \<^verbatim>\<open>toFinishStatus\<close>, \<^verbatim>\<open>toTimeOutStatus\<close>, \<^verbatim>\<open>toKilledStatus\<close>, \<^verbatim>\<open>toErrorStatus\<close>) are not
  among the sources. The spec (4.1) says: "\<^verbatim>\<open>Pending -> Running\<close> sets \<^verbatim>\<open>startAt\<close>,
  \<^verbatim>\<open>processId\<close>"; "Any transition out of \<^verbatim>\<open>Running\<close> sets \<^verbatim>\<open>finishAt\<close> and \<^verbatim>\<open>code\<close> (exit
  status, \<^verbatim>\<open>-100\<close> for timeout, \<^verbatim>\<open>-1\<close> for killed, interpreter exit code for exception and
  success)"; "normal-exit: Success, non-zero-exit: Exception"; (4.3) "Any other runtime
  error: \<^verbatim>\<open>Exception\<close> with the error's message recorded in \<^verbatim>\<open>error\<close>"; (6) "\<^verbatim>\<open>-1\<close> (alias
  unknown) when the child's exit status could not be determined". The codes are the
  constants of \<^verbatim>\<open>domain/cmd.go\<close>.
\<close>

definition toStartStatus :: "host \<Rightarrow> int \<Rightarrow> DockerExecutor \<Rightarrow> DockerExecutor" where
  "toStartStatus h pid d =
     d\<lparr>CmdResult := (CmdResult d)
          \<lparr>ProcessId := pid, Status := CmdStatusRunning, StartAt := Now h (trace d)\<rparr>\<rparr>"

definition toFinishStatus :: "host \<Rightarrow> int \<Rightarrow> DockerExecutor \<Rightarrow> DockerExecutor" where
  "toFinishStatus h exitCode d =
     d\<lparr>CmdResult := (CmdResult d)
          \<lparr>Status := (if exitCode = CmdExitCodeSuccess then CmdStatusSuccess
                      else CmdStatusException),
           Code := exitCode, FinishAt := Now h (trace d)\<rparr>\<rparr>"

definition toTimeOutStatus :: "host \<Rightarrow> DockerExecutor \<Rightarrow> DockerExecutor" where
  "toTimeOutStatus h d =
     d\<lparr>CmdResult := (CmdResult d)
          \<lparr>Status := CmdStatusTimeout, Code := CmdExitCodeTimeOut,
           FinishAt := Now h (trace d)\<rparr>\<rparr>"

definition toKilledStatus :: "host \<Rightarrow> DockerExecutor \<Rightarrow> DockerExecutor" where
  "toKilledStatus h d =
     d\<lparr>CmdResult := (CmdResult d)
          \<lparr>Status := CmdStatusKilled, Code := CmdExitCodeKilled,
           FinishAt := Now h (trace d)\<rparr>\<rparr>"

definition toErrorStatus :: "host \<Rightarrow> error \<Rightarrow> DockerExecutor \<Rightarrow> error \<times> DockerExecutor" where
  "toErrorStatus h err d =
     (err, d\<lparr>CmdResult := (CmdResult d)
          \<lparr>Status := CmdStatusException, Code := CmdExitCodeUnknow,
           FinishAt := Now h (trace d), Error := errorMessage err\<rparr>\<rparr>)"

text \<open>The pipeline calls of \<^verbatim>\<open>BaseExecutor\<close> leave their mark in the trace.\<close>

definition emit :: "event \<Rightarrow> DockerExecutor \<Rightarrow> DockerExecutor" where
  "emit ev d = d\<lparr>trace := trace d @ [ev]\<rparr>"

definition writeLog :: "reader \<Rightarrow> DockerExecutor \<Rightarrow> DockerExecutor" where
  "writeLog r d = emit (WriteLog r) d"

definition writeCmd :: "string list \<Rightarrow> string list \<Rightarrow> DockerExecutor \<Rightarrow> DockerExecutor" where
  "writeCmd doBefore doAfter d = emit (WriteCmd doBefore doAfter) d"

definition closeChannels :: "DockerExecutor \<Rightarrow> DockerExecutor" where
  "closeChannels d = emit CloseChannels d"

text \<open>
  A call of a method of \<^verbatim>\<open>d.cli\<close>: through a nil client it panics with Go's nil-pointer
  error; otherwise the daemon answers from the trace so far and the call is appended to
  the trace. The outer \<open>Inl\<close> is the panic, the inner value is what the method returns.
\<close>

definition cliCall ::
  "event \<Rightarrow> (daemon \<Rightarrow> event list \<Rightarrow> 'r) \<Rightarrow> DockerExecutor \<Rightarrow> (error + 'r) \<times> DockerExecutor" where
  "cliCall ev answer d =
     (case cli d of
        None \<Rightarrow> (Inl NilPointerDereference, d)
      | Some c \<Rightarrow> (Inr (answer c (trace d)), emit ev d))"

subsection \<open>Go's standard library: \<^verbatim>\<open>strings.Contains\<close> and \<^verbatim>\<open>filepath.Join\<close> on Unix\<close>

primrec strings_Contains :: "string \<Rightarrow> string \<Rightarrow> bool" where
  "strings_Contains [] substr = (substr = [])"
| "strings_Contains (c # s) substr =
     (take (length substr) (c # s) = substr \<or> strings_Contains s substr)"

primrec splitSeparator :: "string \<Rightarrow> string list" where
  "splitSeparator [] = [[]]"
| "splitSeparator (c # s) =
     (if c = CHR ''/'' then [] # splitSeparator s
      else (case splitSeparator s of
              [] \<Rightarrow> [[c]]
            | e # es \<Rightarrow> (c # e) # es))"

primrec joinSeparator :: "string list \<Rightarrow> string" where
  "joinSeparator [] = []"
| "joinSeparator (e # es) = (if es = [] then e else e @ ''/'' @ joinSeparator es)"

text \<open>
  \<^verbatim>\<open>filepath.Clean\<close>, element by element: empty elements and \<^verbatim>\<open>.\<close> are dropped, \<^verbatim>\<open>..\<close>
  removes the element before it, is dropped at the root, and is kept at the front of a
  path that is not rooted. \<open>out\<close> holds the elements written so far.
\<close>

fun cleanElements :: "bool \<Rightarrow> string list \<Rightarrow> string list \<Rightarrow> string list" where
  "cleanElements rooted out [] = out"
| "cleanElements rooted out (e # es) =
     (if e = [] \<or> e = ''.'' then cleanElements rooted out es
      else if e = ''..'' then
        (if out \<noteq> [] \<and> last out \<noteq> ''..'' then cleanElements rooted (butlast out) es
         else if rooted then cleanElements rooted out es
         else cleanElements rooted (out @ [''..'']) es)
      else cleanElements rooted (out @ [e]) es)"

definition filepath_Clean :: "string \<Rightarrow> string" where
  "filepath_Clean path =
     (if path = [] then ''.''
      else
        (let rooted = (hd path = CHR ''/'');
             out = cleanElements rooted [] (splitSeparator path)
         in if rooted then ''/'' @ joinSeparator out
            else if out = [] then ''.''
            else joinSeparator out))"

definition filepath_Join :: "string list \<Rightarrow> string" where
  "filepath_Join elem =
     (case dropWhile (\<lambda>e. e = []) elem of
        [] \<Rightarrow> []
      | e # es \<Rightarrow> filepath_Clean (joinSeparator (e # es)))"

subsection \<open>\<^verbatim>\<open>getVolume\<close> and \<^verbatim>\<open>initConfig\<close>\<close>

definition getVolume ::
  "string \<Rightarrow> DockerExecutor \<Rightarrow> (error + (bool \<times> Volume option)) \<times> DockerExecutor" where
  "getVolume name d =
     (case cliCall (VolumeList (ctx d) name) (\<lambda>c tr. onVolumeList c tr (ctx d) name) d of
        (Inl p, d1) \<Rightarrow> (Inl p, d1)
      | (Inr (Inl err), d1) \<Rightarrow> (Inl err, d1)
      | (Inr (Inr list), d1) \<Rightarrow>
          (if length list = 1 then (Inr (True, Some (hd list)), d1)
           else (Inr (False, None), d1)))"

text \<open>
  The loop at the end of \<^verbatim>\<open>initConfig\<close>: a volume the daemon does not list exactly once
  is skipped, the others are appended to the binds. \<open>hc\<close> is the host configuration that
  \<^verbatim>\<open>d.hostConfig\<close> points to.
\<close>

fun bindVolumes ::
  "DockerVolume list \<Rightarrow> HostConfig \<Rightarrow> DockerExecutor \<Rightarrow> (error + unit) \<times> DockerExecutor" where
  "bindVolumes [] hc d = (Inr (), d\<lparr>hostConfig := Some hc\<rparr>)"
| "bindVolumes (v # vs) hc d =
     (case getVolume (Name v) d of
        (Inl p, d1) \<Rightarrow> (Inl p, d1\<lparr>hostConfig := Some hc\<rparr>)
      | (Inr (ok, _), d1) \<Rightarrow>
          (if \<not> ok then bindVolumes vs hc d1
           else bindVolumes vs (hc\<lparr>Binds := Binds hc @ [toBindStr v]\<rparr>) d1))"

text \<open>
  \<^verbatim>\<open>docker := d.inCmd.Docker\<close> only copies the pointer; the first read through it is
  \<^verbatim>\<open>docker.Ports\<close>, after the work dir and the two variables are set.
\<close>

definition initConfig :: "host \<Rightarrow> DockerExecutor \<Rightarrow> (error + unit) \<times> DockerExecutor" where
  "initConfig h d =
     (let d1 = d\<lparr>workDir := filepath_Join [dockerWorkspace, ParseString h (FlowId (inCmd d))]\<rparr>;
          d2 = d1\<lparr>vars := AList.update VarAgentJobDir (workDir d1) (vars d1)\<rparr>;
          d3 = d2\<lparr>vars := AList.update VarAgentPluginDir dockerPluginDir (vars d2)\<rparr>
      in case Docker (inCmd d) of
           None \<Rightarrow> (Inl NilPointerDereference, d3)
         | Some docker \<Rightarrow>
        (case ParsePortSpecs h (Ports docker) of
           Inl err \<Rightarrow> (Inl err, d3)
         | Inr (portSet, portMap) \<Rightarrow>
             (let img = ParseStringWithSource h (Image docker) (vars d3);
                  entrypoint = map (\<lambda>item. ParseStringWithSource h item (vars d3))
                                 (Entrypoint docker);
                  d4 = d3\<lparr>containerConfig := Some
                         \<lparr>ConfigImage = img,
                          Env = ToStringArray (vars d3),
                          ConfigEntrypoint = entrypoint,
                          ExposedPorts = portSet,
                          Tty = False,
                          AttachStdin = True,
                          AttachStderr = True,
                          AttachStdout = True,
                          OpenStdin = True,
                          StdinOnce = True,
                          WorkingDir = workDir d3\<rparr>\<rparr>;
                  hc = \<lparr>ConfigNetworkMode = NetworkMode docker,
                        PortBindings = portMap,
                        Binds = [VolumeName (flowVolume d4) @ '':'' @ workDir d4]\<rparr>
              in bindVolumes (volumes d4) hc d4)))"

subsection \<open>\<^verbatim>\<open>handleErrors\<close>\<close>

definition handleErrors :: "host \<Rightarrow> error \<Rightarrow> DockerExecutor \<Rightarrow> error option \<times> DockerExecutor" where
  "handleErrors h err d =
     (if err = DeadlineExceeded then (None, (toTimeOutStatus h d)\<lparr>ctx := Background\<rparr>)
      else if err = Canceled then (None, (toKilledStatus h d)\<lparr>ctx := Background\<rparr>)
      else (Some err, snd (toErrorStatus h err d)))"

subsection \<open>\<^verbatim>\<open>pullImage\<close>\<close>

text \<open>The local \<^verbatim>\<open>fullRef\<close> of \<^verbatim>\<open>pullImage\<close>, as a function of the local \<^verbatim>\<open>image\<close> (\<open>img\<close>).\<close>

definition fullRef :: "string \<Rightarrow> string" where
  "fullRef img =
     (if strings_Contains img ''/'' then ''docker.io/'' @ img
      else ''docker.io/library/'' @ img)"

definition pullImage :: "DockerExecutor \<Rightarrow> (error + unit) \<times> DockerExecutor" where
  "pullImage d =
     (case containerConfig d of
        None \<Rightarrow> (Inl NilPointerDereference, d)
      | Some cfg \<Rightarrow>
          (let img = ConfigImage cfg
           in case cliCall (ImagePull (ctx d) (fullRef img))
                     (\<lambda>c tr. onImagePull c tr (ctx d) (fullRef img)) d of
                (Inl p, d1) \<Rightarrow> (Inl p, d1)
              | (Inr (Inl err), d1) \<Rightarrow> (Inl err, d1)
              | (Inr (Inr reader), d1) \<Rightarrow> (Inr (), writeLog reader d1)))"

subsection \<open>\<^verbatim>\<open>tryToResume\<close> and \<^verbatim>\<open>startContainer\<close>\<close>

definition tryToResume :: "DockerExecutor \<Rightarrow> (error + bool) \<times> DockerExecutor" where
  "tryToResume d =
     (let containerIdToReuse = ContainerId (inCmd d)
      in if IsEmptyString containerIdToReuse then (Inr False, d)
         else
           (case cliCall (ContainerInspect (ctx d) containerIdToReuse)
                  (\<lambda>c tr. onContainerInspect c tr (ctx d) containerIdToReuse) d of
              (Inl p, d1) \<Rightarrow> (Inl p, d1)
            | (Inr (Inl err), d1) \<Rightarrow>
                (if IsErrContainerNotFound (Some err) then (Inr False, d1)
                 else (Inl err, d1))
            | (Inr (Inr inspect), d1) \<Rightarrow>
                (if StateStatus inspect \<noteq> ''exited'' then (Inr False, d1)
                 else
                   (let timeout = 5 * Second
                    in case cliCall (ContainerRestart (ctx d1) containerIdToReuse timeout)
                              (\<lambda>c tr. onContainerRestart c tr (ctx d1) containerIdToReuse timeout)
                              d1 of
                         (Inl p, d2) \<Rightarrow> (Inl p, d2)
                       | (Inr None, d2) \<Rightarrow>
                           (Inr True,
                            d2\<lparr>containerId := containerIdToReuse,
                               CmdResult := (CmdResult d2)
                                 \<lparr>ResultContainerId := containerIdToReuse\<rparr>\<rparr>)
                       | (Inr (Some err), d2) \<Rightarrow>
                           (case cliCall (ContainerRemove (ctx d2) containerIdToReuse True)
                                  (\<lambda>c tr. onContainerRemove c tr (ctx d2) containerIdToReuse True)
                                  d2 of
                              (Inl p, d3) \<Rightarrow> (Inl p, d3)
                            | (Inr _, d3) \<Rightarrow> (Inr False, d3))))))"

definition startContainer :: "DockerExecutor \<Rightarrow> (error + unit) \<times> DockerExecutor" where
  "startContainer d =
     (case tryToResume d of
        (Inl p, d1) \<Rightarrow> (Inl p, d1)
      | (Inr True, d1) \<Rightarrow> (Inr (), d1)
      | (Inr False, d1) \<Rightarrow>
          (case cliCall (ContainerCreate (ctx d1) (containerConfig d1) (hostConfig d1))
                 (\<lambda>c tr. onContainerCreate c tr (ctx d1) (containerConfig d1) (hostConfig d1))
                 d1 of
             (Inl p, d2) \<Rightarrow> (Inl p, d2)
           | (Inr (Inl err), d2) \<Rightarrow> (Inl err, d2)
           | (Inr (Inr cid), d2) \<Rightarrow>
               (let d3 = d2\<lparr>containerId := cid,
                            CmdResult := (CmdResult d2)\<lparr>ResultContainerId := cid\<rparr>\<rparr>
                in case cliCall (ContainerStart (ctx d3) cid)
                          (\<lambda>c tr. onContainerStart c tr (ctx d3) cid) d3 of
                     (Inl p, d4) \<Rightarrow> (Inl p, d4)
                   | (Inr err, d4) \<Rightarrow>
                       (case PanicIfErr err of
                          Inl p \<Rightarrow> (Inl p, d4)
                        | Inr _ \<Rightarrow> (Inr (), d4)))))"

subsection \<open>\<^verbatim>\<open>copyPlugins\<close>, \<^verbatim>\<open>runCmdInContainer\<close>, \<^verbatim>\<open>waitForExit\<close>, \<^verbatim>\<open>exportEnv\<close>\<close>

definition copyPlugins :: "host \<Rightarrow> DockerExecutor \<Rightarrow> (error + unit) \<times> DockerExecutor" where
  "copyPlugins h d =
     (let AllowOverwriteDirWithFile = True
      in if \<not> IsEmptyString (pluginDir d) then
           (case tarArchiveFromPath h (pluginDir d) of
              Inl err \<Rightarrow> (Inl err, d)
            | Inr reader \<Rightarrow>
                (case cliCall
                        (CopyToContainer (ctx d) (containerId d) dockerWorkspace reader
                           AllowOverwriteDirWithFile)
                        (\<lambda>c tr. onCopyToContainer c tr (ctx d) (containerId d) dockerWorkspace
                           reader AllowOverwriteDirWithFile) d of
                   (Inl p, d1) \<Rightarrow> (Inl p, d1)
                 | (Inr err, d1) \<Rightarrow>
                     (case PanicIfErr err of
                        Inl p \<Rightarrow> (Inl p, d1)
                      | Inr _ \<Rightarrow> (Inr (), d1))))
         else (Inr (), d))"

text \<open>The lines the closure \<^verbatim>\<open>initScriptInVolume\<close> sends, and the line of \<^verbatim>\<open>writeEnv\<close>.\<close>

definition initScriptInVolume :: "DockerVolume list \<Rightarrow> string list" where
  "initScriptInVolume vs =
     map (\<lambda>v. ''source '' @ scriptPath v) (filter (\<lambda>v. \<not> IsEmptyString (Script v)) vs)"

definition writeEnv :: "string list" where
  "writeEnv = [''env > '' @ dockerEnvFile]"

definition runCmdInContainer :: "DockerExecutor \<Rightarrow> (error + string) \<times> DockerExecutor" where
  "runCmdInContainer d =
     (let config = \<lparr>ExecTty = False, ExecAttachStdin = True, ExecAttachStderr = True,
                     ExecAttachStdout = True, ExecCmd = [linuxBash]\<rparr>
      in case cliCall (ContainerExecCreate (ctx d) (containerId d) config)
                (\<lambda>c tr. onContainerExecCreate c tr (ctx d) (containerId d) config) d of
           (Inl p, d1) \<Rightarrow> (Inl p, d1)
         | (Inr (Inl err), d1) \<Rightarrow> (Inl err, d1)
         | (Inr (Inr execID), d1) \<Rightarrow>
             (let attachConfig = \<lparr>ExecTty = False, ExecAttachStdin = False,
                                   ExecAttachStderr = False, ExecAttachStdout = False,
                                   ExecCmd = []\<rparr>
              in case cliCall (ContainerExecAttach (ctx d1) execID attachConfig)
                        (\<lambda>c tr. onContainerExecAttach c tr (ctx d1) execID attachConfig) d1 of
                   (Inl p, d2) \<Rightarrow> (Inl p, d2)
                 | (Inr (Inl err), d2) \<Rightarrow> (Inl err, d2)
                 | (Inr (Inr attach), d2) \<Rightarrow>
                     (Inr execID,
                      writeCmd (initScriptInVolume (volumes d2)) writeEnv
                        (writeLog attach d2))))"

text \<open>
  The polling loop of \<^verbatim>\<open>waitForExit\<close> has no bound of its own: it runs for as long as the
  daemon reports the exec session running. \<open>fuel\<close> bounds the number of inspections; the
  result \<open>None\<close> says that the loop has not returned within that bound.
\<close>

fun pollExit ::
  "nat \<Rightarrow> string \<Rightarrow> DockerExecutor \<Rightarrow> ((error + ContainerExecInspect) \<times> DockerExecutor) option"
  where
  "pollExit 0 eid d = None"
| "pollExit (Suc fuel) eid d =
     (case cliCall (ContainerExecInspect (ctx d) eid)
             (\<lambda>c tr. onContainerExecInspect c tr (ctx d) eid) d of
        (Inl p, d1) \<Rightarrow> Some (Inl p, d1)
      | (Inr (Inl err), d1) \<Rightarrow> Some (Inl err, d1)
      | (Inr (Inr inspect), d1) \<Rightarrow>
          (if \<not> Running inspect then Some (Inr inspect, d1)
           else pollExit fuel eid (emit (Sleep (1 * Second)) d1)))"

definition waitForExit ::
  "host \<Rightarrow> nat \<Rightarrow> string \<Rightarrow> DockerExecutor \<Rightarrow> ((error + int) \<times> DockerExecutor) option" where
  "waitForExit h fuel eid d =
     (case cliCall (ContainerExecInspect (ctx d) eid)
             (\<lambda>c tr. onContainerExecInspect c tr (ctx d) eid) d of
        (Inl p, d1) \<Rightarrow> Some (Inl p, d1)
      | (Inr (Inl err), d1) \<Rightarrow> Some (Inl err, d1)
      | (Inr (Inr inspect), d1) \<Rightarrow>
          (case pollExit fuel eid (toStartStatus h (Pid inspect) d1) of
             None \<Rightarrow> None
           | Some (Inl p, d2) \<Rightarrow> Some (Inl p, d2)
           | Some (Inr inspect2, d2) \<Rightarrow> Some (Inr (ExitCode inspect2), d2)))"

definition exportEnv :: "host \<Rightarrow> DockerExecutor \<Rightarrow> (error + unit) \<times> DockerExecutor" where
  "exportEnv h d =
     (case cliCall (CopyFromContainer (ctx d) (containerId d) dockerEnvFile)
             (\<lambda>c tr. onCopyFromContainer c tr (ctx d) (containerId d) dockerEnvFile) d of
        (Inl p, d1) \<Rightarrow> (Inl p, d1)
      | (Inr (Inl err), d1) \<Rightarrow> (Inr (), d1)
      | (Inr (Inr reader), d1) \<Rightarrow>
          (Inr (),
           d1\<lparr>CmdResult := (CmdResult d1)
                 \<lparr>Output := readEnvFromReader h reader (EnvFilters (inCmd d1))\<rparr>\<rparr>))"

subsection \<open>\<^verbatim>\<open>cleanupContainer\<close> and \<^verbatim>\<open>Start\<close>\<close>

text \<open>
  \<^verbatim>\<open>cleanupContainer\<close>: \<^verbatim>\<open>option := d.inCmd.Docker\<close> copies the pointer, and
  \<^verbatim>\<open>option.IsDeleteContainer\<close> reads through it: a nil docker option panics here. The
  errors of the two calls are only logged (\<^verbatim>\<open>util.LogIfError\<close>), so the daemon's answer does
  not reach the executor.
\<close>

definition cleanupContainer :: "DockerExecutor \<Rightarrow> (error + unit) \<times> DockerExecutor" where
  "cleanupContainer d =
     (case Docker (inCmd d) of
        None \<Rightarrow> (Inl NilPointerDereference, d)
      | Some option \<Rightarrow>
         (if IsDeleteContainer option then
            (case cliCall (ContainerRemove (ctx d) (containerId d) True)
                    (\<lambda>c tr. onContainerRemove c tr (ctx d) (containerId d) True) d of
               (Inl p, d1) \<Rightarrow> (Inl p, d1)
             | (Inr err, d1) \<Rightarrow> (Inr (), d1))
          else if IsStopContainer option then
            (case cliCall (ContainerStop (ctx d) (containerId d) None)
                    (\<lambda>c tr. onContainerStop c tr (ctx d) (containerId d) None) d of
               (Inl p, d1) \<Rightarrow> (Inl p, d1)
             | (Inr err, d1) \<Rightarrow> (Inr (), d1))
          else (Inr (), d)))"

text \<open>
  The end of the body of \<^verbatim>\<open>Start\<close>, from the test of \<^verbatim>\<open>IsFinishStatus\<close> to the last
  \<^verbatim>\<open>return\<close>. Both returns leave the named result \<^verbatim>\<open>out\<close> nil.
\<close>

definition StartFinish :: "host \<Rightarrow> int \<Rightarrow> DockerExecutor \<Rightarrow> error option \<times> DockerExecutor" where
  "StartFinish h exitCode d =
     (if IsFinishStatus (CmdResult d) then (None, d)
      else (None, toFinishStatus h exitCode d))"

text \<open>
  The body of \<^verbatim>\<open>Start\<close> below its \<^verbatim>\<open>defer\<close>: \<open>Inl\<close> is a panic, \<open>Inr out\<close> the value the
  body returns.
\<close>

definition StartBody ::
  "host \<Rightarrow> nat \<Rightarrow> DockerExecutor \<Rightarrow> ((error + error option) \<times> DockerExecutor) option" where
  "StartBody h fuel d =
     (case pullImage (emit (WgAdd 2) d) of
        (Inl p, d1) \<Rightarrow> Some (Inl p, d1)
      | (Inr _, d1) \<Rightarrow>
     (case startContainer d1 of
        (Inl p, d2) \<Rightarrow> Some (Inl p, d2)
      | (Inr _, d2) \<Rightarrow>
     (case copyPlugins h d2 of
        (Inl p, d3) \<Rightarrow> Some (Inl p, d3)
      | (Inr _, d3) \<Rightarrow>
     (case runCmdInContainer d3 of
        (Inl p, d4) \<Rightarrow> Some (Inl p, d4)
      | (Inr eid, d4) \<Rightarrow>
     (case waitForExit h fuel eid d4 of
        None \<Rightarrow> None
      | Some (Inl p, d5) \<Rightarrow> Some (Inl p, d5)
      | Some (Inr exitCode, d5) \<Rightarrow>
     (case exportEnv h d5 of
        (Inl p, d6) \<Rightarrow> Some (Inl p, d6)
      | (Inr _, d6) \<Rightarrow>
          (case StartFinish h exitCode d6 of (out, d7) \<Rightarrow> Some (Inr out, d7))))))))"

text \<open>
  The deferred function of \<^verbatim>\<open>Start\<close>: a recovered panic of the body goes through
  \<^verbatim>\<open>handleErrors\<close>, whose result becomes \<^verbatim>\<open>out\<close>; then the cleanup under its guard
  \<^verbatim>\<open>d.cli != nil\<close>; then \<^verbatim>\<open>closeChannels\<close>. \<^verbatim>\<open>recover\<close> has been called by then, so a panic
  of the cleanup is not recovered: it ends the deferred function before \<^verbatim>\<open>closeChannels\<close>
  and leaves \<^verbatim>\<open>Start\<close> as a panic. The result \<open>Inl p\<close> is \<^verbatim>\<open>Start\<close> panicking with \<open>p\<close>,
  \<open>Inr out\<close> is \<^verbatim>\<open>Start\<close> returning \<open>out\<close>.
\<close>

definition StartDeferred ::
  "host \<Rightarrow> (error + error option) \<Rightarrow> DockerExecutor \<Rightarrow>
     (error + error option) \<times> DockerExecutor" where
  "StartDeferred h r d =
     (let (out, d1) = (case r of Inl err \<Rightarrow> handleErrors h err d | Inr out \<Rightarrow> (out, d))
      in if cli d1 \<noteq> None then
           (case cleanupContainer d1 of
              (Inl p, d2) \<Rightarrow> (Inl p, d2)
            | (Inr _, d2) \<Rightarrow> (Inr out, closeChannels d2))
         else (Inr out, closeChannels d1))"

definition Start ::
  "host \<Rightarrow> nat \<Rightarrow> DockerExecutor \<Rightarrow> ((error + error option) \<times> DockerExecutor) option" where
  "Start h fuel d =
     (case StartBody h fuel d of
        None \<Rightarrow> None
      | Some (r, d1) \<Rightarrow> Some (StartDeferred h r d1))"

section \<open>A concrete host, daemon and executor\<close>

text \<open>
  The command of \<^verbatim>\<open>createDockerTestCmd\<close> in \<^verbatim>\<open>docker_executor_test.go\<close>, with the flow id
  \<^verbatim>\<open>flowid\<close> that the test sets (the literal sets no \<open>Type\<close>, \<open>WorkDir\<close>, \<open>ContainerId\<close>,
  ports or network mode: they are Go's zero values), a host, and a daemon on which every
  call succeeds: a supplied container is found in state \<^verbatim>\<open>exited\<close> and restarts, and the
  exec session is over at the first inspection, with exit code 0.
\<close>

definition testHost :: host where
  "testHost =
     \<lparr>ParseString = (\<lambda>s. s),
      ParseStringWithSource = (\<lambda>s vs. s),
      ParsePortSpecs = (\<lambda>ps. Inr (ps, ps)),
      tarArchiveFromPath = (\<lambda>p. Inr ''tar''),
      readEnvFromReader = (\<lambda>r fs. [(''FLOW_VVV'', ''flowci'')]),
      Now = (\<lambda>tr. length tr)\<rparr>"

definition testDaemon :: daemon where
  "testDaemon =
     \<lparr>onImagePull = (\<lambda>tr c ref. Inr ''pulled''),
      onContainerInspect = (\<lambda>tr c cid. Inr \<lparr>InspectID = cid, StateStatus = ''exited''\<rparr>),
      onContainerRestart = (\<lambda>tr c cid t. None),
      onContainerRemove = (\<lambda>tr c cid force. None),
      onContainerCreate = (\<lambda>tr c cfg hc. Inr ''c-new''),
      onContainerStart = (\<lambda>tr c cid. None),
      onCopyToContainer = (\<lambda>tr c cid path r ow. None),
      onContainerExecCreate = (\<lambda>tr c cid cfg. Inr ''e-1''),
      onContainerExecAttach = (\<lambda>tr c eid cfg. Inr ''bbb''),
      onContainerExecInspect = (\<lambda>tr c eid. Inr \<lparr>Running = False, ExitCode = 0, Pid = 42\<rparr>),
      onCopyFromContainer = (\<lambda>tr c cid path. Inr ''FLOW_VVV=flowci''),
      onContainerStop = (\<lambda>tr c cid t. None),
      onVolumeList = (\<lambda>tr c name. Inr [\<lparr>VolumeName = name\<rparr>])\<rparr>"

definition testCmd :: CmdIn where
  "testCmd =
     \<lparr>ID = ''1-1-1'', AllowFailure = False, Plugin = [],
      Type = [],
      Scripts = [''echo bbb'', ''sleep 5'', ''>&2 echo $INPUT_VAR'',
                 ''export FLOW_VVV=flowci'', ''export FLOW_AAA=flow...''],
      WorkDir = [], Timeout = 1800,
      Inputs = [(''INPUT_VAR'', ''aaa'')],
      EnvFilters = [''FLOW_''],
      FlowId = ''flowid'',
      ContainerId = [],
      Docker = Some \<lparr>Image = ''ubuntu:18.04'', Entrypoint = [''/bin/bash''], Ports = [],
                      NetworkMode = [], IsStopContainer = True, IsDeleteContainer = True\<rparr>\<rparr>"

text \<open>The executor before \<^verbatim>\<open>Init\<close>: no client and no configuration yet.\<close>

definition testExecutor :: DockerExecutor where
  "testExecutor =
     \<lparr>ctx = JobContext,
      inCmd = testCmd,
      vars = [(''INPUT_VAR'', ''aaa'')],
      CmdResult = \<lparr>ID = ''1-1-1'', AllowFailure = False, Plugin = [],
                   ProcessId = 0, Status = CmdStatusPending, Code = CmdExitCodeUnknow,
                   Output = [], StartAt = 0, FinishAt = 0, Error = [], LogSize = 0,
                   ResultContainerId = []\<rparr>,
      pluginDir = [],
      volumes = [],
      flowVolume = \<lparr>VolumeName = ''flow-flowid''\<rparr>,
      cli = None,
      containerConfig = None,
      hostConfig = None,
      containerId = [],
      workDir = [],
      envFile = [],
      trace = []\<rparr>"

text \<open>
  The executor as \<^verbatim>\<open>Init\<close> leaves it on daemon \<open>c\<close>, for the command \<open>cmd\<close>: the client
  is set and \<^verbatim>\<open>initConfig\<close> has run. The trace starts empty again.
\<close>

definition readyExecutor :: "daemon \<Rightarrow> CmdIn \<Rightarrow> DockerExecutor" where
  "readyExecutor c cmd =
     (snd (initConfig testHost (testExecutor\<lparr>cli := Some c, inCmd := cmd\<rparr>)))\<lparr>trace := []\<rparr>"

text \<open>The number of inspections of an exec session that a trace holds.\<close>

definition inspections :: "event list \<Rightarrow> nat" where
  "inspections tr =
     length (filter (\<lambda>ev. case ev of ContainerExecInspect c eid \<Rightarrow> True | _ \<Rightarrow> False) tr)"

text \<open>
  A daemon on which the exec session runs: the first two inspections (the one before the
  loop of \<^verbatim>\<open>waitForExit\<close> and the first of the loop) report it running, every later one
  gets the answer \<open>a\<close>.
\<close>

definition runningThen :: "error + ContainerExecInspect \<Rightarrow> daemon" where
  "runningThen a =
     testDaemon\<lparr>onContainerExecInspect :=
       (\<lambda>tr c eid. if inspections tr < 2 then Inr \<lparr>Running = True, ExitCode = 0, Pid = 42\<rparr>
                    else a)\<rparr>"

text \<open>
  While the session runs, the job is cancelled, or its deadline passes, or the interpreter
  exits with status 127.
\<close>

definition cancelledDaemon :: daemon where
  "cancelledDaemon = runningThen (Inl Canceled)"

definition deadlineDaemon :: daemon where
  "deadlineDaemon = runningThen (Inl DeadlineExceeded)"

definition exit127Daemon :: daemon where
  "exit127Daemon = runningThen (Inr \<lparr>Running = False, ExitCode = 127, Pid = 42\<rparr>)"

text \<open>
  Daemons that fail at one point: the image cannot be pulled; the supplied container
  cannot be inspected, or cannot be restarted; the env-dump file cannot be copied out,
  for want of the file or because the job has just been cancelled.
\<close>

definition pullFailsDaemon :: daemon where
  "pullFailsDaemon =
     testDaemon\<lparr>onImagePull := (\<lambda>tr c ref. Inl (OtherError ''pull access denied''))\<rparr>"

definition inspectFailsDaemon :: daemon where
  "inspectFailsDaemon =
     testDaemon\<lparr>onContainerInspect := (\<lambda>tr c cid. Inl (OtherError ''daemon not reachable''))\<rparr>"

definition restartFailsDaemon :: daemon where
  "restartFailsDaemon =
     testDaemon\<lparr>onContainerRestart := (\<lambda>tr c cid t. Some (OtherError ''cannot restart''))\<rparr>"

definition copyFailsDaemon :: daemon where
  "copyFailsDaemon =
     testDaemon\<lparr>onCopyFromContainer := (\<lambda>tr c cid path. Inl (OtherError ''no such file''))\<rparr>"

definition copyCancelledDaemon :: daemon where
  "copyCancelledDaemon =
     testDaemon\<lparr>onCopyFromContainer := (\<lambda>tr c cid path. Inl Canceled)\<rparr>"

text \<open>The test command with a container to resume.\<close>

definition resumeCmd :: CmdIn where
  "resumeCmd = testCmd\<lparr>ContainerId := ''c-old''\<rparr>"

text \<open>
  The executor as a failed \<^verbatim>\<open>Init\<close> leaves it when the command carries no docker option:
  the client is set, and \<^verbatim>\<open>initConfig\<close> has panicked before it set any configuration.
\<close>

definition failedInitExecutor :: DockerExecutor where
  "failedInitExecutor =
     snd (initConfig testHost (testExecutor\<lparr>cli := Some testDaemon,
                                            inCmd := testCmd\<lparr>Docker := None\<rparr>\<rparr>))"

section \<open>Evaluation and frame lemmas\<close>

text \<open>The defining equations, grouped for evaluating the model on concrete inputs.\<close>

lemmas consts_defs = CmdTypeShell_def CmdTypeKill_def CmdTypeClose_def CmdStatusPending_def
  CmdStatusRunning_def CmdStatusSuccess_def CmdStatusSkipped_def CmdStatusException_def
  CmdStatusKilled_def CmdStatusTimeout_def CmdExitCodeUnknow_def CmdExitCodeTimeOut_def
  CmdExitCodeKilled_def CmdExitCodeSuccess_def dockerWorkspace_def dockerPluginDir_def
  dockerEnvFile_def VarAgentJobDir_def VarAgentPluginDir_def linuxBash_def Second_def

lemmas fixture_defs = testHost_def testDaemon_def testCmd_def testExecutor_def readyExecutor_def
  pullFailsDaemon_def cancelledDaemon_def deadlineDaemon_def inspectFailsDaemon_def
  restartFailsDaemon_def copyFailsDaemon_def resumeCmd_def inspections_def runningThen_def
  exit127Daemon_def copyCancelledDaemon_def failedInitExecutor_def

lemmas exec_defs = IsEmptyString_def ToStringArray_def IsFinishStatus_def toStartStatus_def
  toFinishStatus_def toTimeOutStatus_def toKilledStatus_def toErrorStatus_def emit_def
  writeLog_def writeCmd_def closeChannels_def cliCall_def PanicIfErr_def
  getVolume_def initConfig_def handleErrors_def fullRef_def pullImage_def tryToResume_def
  startContainer_def copyPlugins_def initScriptInVolume_def writeEnv_def runCmdInContainer_def
  waitForExit_def exportEnv_def cleanupContainer_def StartFinish_def StartBody_def
  StartDeferred_def Start_def filepath_Clean_def filepath_Join_def

text \<open>
  What each step leaves alone. No step of the body of \<^verbatim>\<open>Start\<close> touches the client, the
  command or the context.
\<close>

lemma emit_fields:
  "cli (emit ev d) = cli d" "inCmd (emit ev d) = inCmd d" "ctx (emit ev d) = ctx d"
  "containerId (emit ev d) = containerId d" "CmdResult (emit ev d) = CmdResult d"
  "trace (emit ev d) = trace d @ [ev]" "containerConfig (emit ev d) = containerConfig d"
  "hostConfig (emit ev d) = hostConfig d" "vars (emit ev d) = vars d"
  "workDir (emit ev d) = workDir d" "volumes (emit ev d) = volumes d"
  "pluginDir (emit ev d) = pluginDir d"
  by (simp_all add: emit_def)

lemma cliCall_Some: "cli d = Some c \<Longrightarrow> cliCall ev f d = (Inr (f c (trace d)), emit ev d)"
  by (simp add: cliCall_def)

lemma cliCall_None: "cli d = None \<Longrightarrow> cliCall ev f d = (Inl NilPointerDereference, d)"
  by (simp add: cliCall_def)

lemma cliCall_frame:
  assumes "cliCall ev f d = (r, d')"
  shows "cli d' = cli d \<and> inCmd d' = inCmd d \<and> ctx d' = ctx d \<and> containerId d' = containerId d \<and> CmdResult d' = CmdResult d"
  using assms by (auto simp: cliCall_def emit_fields split: option.splits)

lemma pullImage_frame:
  assumes "pullImage d = (r, d')"
  shows "cli d' = cli d \<and> inCmd d' = inCmd d \<and> ctx d' = ctx d"
  using assms
  by (auto simp: pullImage_def writeLog_def cliCall_def emit_fields Let_def split: option.splits sum.splits prod.splits)

lemma tryToResume_frame:
  assumes "tryToResume d = (r, d')"
  shows "cli d' = cli d \<and> inCmd d' = inCmd d \<and> ctx d' = ctx d"
  using assms
  by (auto simp: tryToResume_def cliCall_def emit_fields Let_def split: option.splits sum.splits prod.splits if_splits)

lemma startContainer_frame:
  assumes "startContainer d = (r, d')"
  shows "cli d' = cli d \<and> inCmd d' = inCmd d \<and> ctx d' = ctx d"
proof (cases "tryToResume d")
  case (Pair r1 d1)
  note f1 = tryToResume_frame [OF Pair]
  show ?thesis using assms Pair f1
    by (auto simp: startContainer_def cliCall_def PanicIfErr_def emit_fields split: option.splits sum.splits prod.splits bool.splits)
qed

lemma copyPlugins_frame:
  assumes "copyPlugins h d = (r, d')"
  shows "cli d' = cli d \<and> inCmd d' = inCmd d \<and> ctx d' = ctx d"
  using assms
  by (auto simp: copyPlugins_def cliCall_def PanicIfErr_def emit_fields Let_def split: option.splits sum.splits prod.splits if_splits)

lemma runCmdInContainer_frame:
  assumes "runCmdInContainer d = (r, d')"
  shows "cli d' = cli d \<and> inCmd d' = inCmd d \<and> ctx d' = ctx d"
  using assms
  by (auto simp: runCmdInContainer_def writeLog_def writeCmd_def cliCall_def emit_fields Let_def split: option.splits sum.splits prod.splits if_splits)

lemma pollExit_frame:
  "pollExit fuel eid d = Some (r, d') \<Longrightarrow> cli d' = cli d \<and> inCmd d' = inCmd d \<and> ctx d' = ctx d"
proof (induction fuel arbitrary: d)
  case 0
  then show ?case by simp
next
  case (Suc fuel)
  show ?case
  proof (cases "cli d")
    case None
    with Suc.prems show ?thesis by (simp add: cliCall_None)
  next
    case (Some c)
    show ?thesis
    proof (cases "onContainerExecInspect c (trace d) (ctx d) eid")
      case (Inl err)
      with Suc.prems Some show ?thesis by (auto simp: cliCall_Some emit_fields)
    next
      case (Inr inspect)
      show ?thesis
      proof (cases "Running inspect")
        case True
        with Suc.prems Some Inr
        have "pollExit fuel eid (emit (Sleep (1 * Second)) (emit (ContainerExecInspect (ctx d) eid) d)) = Some (r, d')"
          by (simp add: cliCall_Some)
        from Suc.IH [OF this] show ?thesis by (simp add: emit_fields)
      next
        case False
        with Suc.prems Some Inr show ?thesis by (auto simp: cliCall_Some emit_fields)
      qed
    qed
  qed
qed

lemma toStartStatus_fields:
  "cli (toStartStatus h pid d) = cli d" "inCmd (toStartStatus h pid d) = inCmd d"
  "ctx (toStartStatus h pid d) = ctx d" "trace (toStartStatus h pid d) = trace d"
  "containerId (toStartStatus h pid d) = containerId d"
  by (simp_all add: toStartStatus_def)

lemma waitForExit_frame:
  assumes "waitForExit h fuel eid d = Some (r, d')"
  shows "cli d' = cli d \<and> inCmd d' = inCmd d \<and> ctx d' = ctx d"
proof (cases "cli d")
  case None
  with assms show ?thesis by (simp add: waitForExit_def cliCall_None)
next
  case (Some c)
  show ?thesis
  proof (cases "onContainerExecInspect c (trace d) (ctx d) eid")
    case (Inl err)
    with assms Some show ?thesis by (auto simp: waitForExit_def cliCall_Some emit_fields)
  next
    case (Inr inspect)
    let ?d1 = "toStartStatus h (Pid inspect) (emit (ContainerExecInspect (ctx d) eid) d)"
    from assms Some Inr obtain r2 where "pollExit fuel eid ?d1 = Some (r2, d')"
      by (auto simp: waitForExit_def cliCall_Some split: option.splits sum.splits prod.splits)
    from pollExit_frame [OF this] show ?thesis by (simp add: toStartStatus_fields emit_fields)
  qed
qed

lemma exportEnv_frame:
  assumes "exportEnv h d = (r, d')"
  shows "cli d' = cli d \<and> inCmd d' = inCmd d \<and> ctx d' = ctx d"
  using assms
  by (auto simp: exportEnv_def cliCall_def emit_fields split: option.splits sum.splits prod.splits)

lemma StartFinish_frame:
  assumes "StartFinish h exitCode d = (r, d')"
  shows "cli d' = cli d \<and> inCmd d' = inCmd d \<and> ctx d' = ctx d \<and> r = None"
  using assms by (auto simp: StartFinish_def toFinishStatus_def split: if_splits)

lemma StartBody_frame:
  assumes "StartBody h fuel d = Some (r, d')"
  shows "cli d' = cli d \<and> inCmd d' = inCmd d \<and> ctx d' = ctx d"
proof -
  obtain r1 d1 where p1: "pullImage (emit (WgAdd 2) d) = (r1, d1)" by force
  obtain r2 d2 where p2: "startContainer d1 = (r2, d2)" by force
  obtain r3 d3 where p3: "copyPlugins h d2 = (r3, d3)" by force
  obtain r4 d4 where p4: "runCmdInContainer d3 = (r4, d4)" by force
  note f1 = pullImage_frame [OF p1] and f2 = startContainer_frame [OF p2]
    and f3 = copyPlugins_frame [OF p3] and f4 = runCmdInContainer_frame [OF p4]
  show ?thesis
  proof (cases r1)
    case (Inl p)
    with assms p1 f1 show ?thesis by (simp add: StartBody_def emit_fields)
  next
    case a1: (Inr u1)
    show ?thesis
    proof (cases r2)
      case (Inl p)
      with assms p1 p2 a1 f1 f2 show ?thesis by (simp add: StartBody_def emit_fields)
    next
      case a2: (Inr u2)
      show ?thesis
      proof (cases r3)
        case (Inl p)
        with assms p1 p2 p3 a1 a2 f1 f2 f3 show ?thesis by (simp add: StartBody_def emit_fields)
      next
        case a3: (Inr u3)
        show ?thesis
        proof (cases r4)
          case (Inl p)
          with assms p1 p2 p3 p4 a1 a2 a3 f1 f2 f3 f4 show ?thesis
            by (simp add: StartBody_def emit_fields)
        next
          case a4: (Inr eid)
          from assms p1 p2 p3 p4 a1 a2 a3 a4
          obtain r5 d5 where p5: "waitForExit h fuel eid d4 = Some (r5, d5)"
            by (auto simp: StartBody_def split: option.splits)
          note f5 = waitForExit_frame [OF p5]
          show ?thesis
          proof (cases r5)
            case (Inl p)
            with assms p1 p2 p3 p4 p5 a1 a2 a3 a4 f1 f2 f3 f4 f5 show ?thesis
              by (simp add: StartBody_def emit_fields)
          next
            case a5: (Inr exitCode)
            obtain r6 d6 where p6: "exportEnv h d5 = (r6, d6)" by force
            note f6 = exportEnv_frame [OF p6]
            obtain r7 d7 where p7: "StartFinish h exitCode d6 = (r7, d7)" by force
            note f7 = StartFinish_frame [OF p7]
            from assms p1 p2 p3 p4 p5 p6 p7 a1 a2 a3 a4 a5 f1 f2 f3 f4 f5 f6 f7 show ?thesis
              by (cases r6) (simp_all add: StartBody_def emit_fields)
          qed
        qed
      qed
    qed
  qed
qed

text \<open>The deferred function of \<^verbatim>\<open>Start\<close>: what it appends to the trace.\<close>

lemma handleErrors_fields:
  assumes "handleErrors h err d = (out, d')"
  shows "cli d' = cli d \<and> inCmd d' = inCmd d \<and> trace d' = trace d \<and> containerId d' = containerId d"
  using assms
  by (auto simp: handleErrors_def toTimeOutStatus_def toKilledStatus_def toErrorStatus_def
           split: if_splits)

lemma cleanupContainer_Some:
  assumes "cli d = Some c" and "Docker (inCmd d) = Some opt"
  shows "cleanupContainer d =
     (Inr (),
      if IsDeleteContainer opt then emit (ContainerRemove (ctx d) (containerId d) True) d
      else if IsStopContainer opt then emit (ContainerStop (ctx d) (containerId d) None) d
      else d)"
  using assms by (simp add: cleanupContainer_def cliCall_Some)

lemma cleanupContainer_nil:
  "Docker (inCmd d) = None \<Longrightarrow> cleanupContainer d = (Inl NilPointerDereference, d)"
  by (simp add: cleanupContainer_def)

lemma cleanupContainer_no_panic:
  "cli d \<noteq> None \<Longrightarrow> Docker (inCmd d) \<noteq> None \<Longrightarrow> fst (cleanupContainer d) = Inr ()"
  by (auto simp: cleanupContainer_Some)

lemma cleanupContainer_fields:
  "CmdResult (snd (cleanupContainer d)) = CmdResult d" "ctx (snd (cleanupContainer d)) = ctx d"
  by (auto simp: cleanupContainer_def cliCall_def emit_fields split: option.splits)

text \<open>
  The three ways the deferred function ends: with a client and a docker option, cleanup
  and \<^verbatim>\<open>closeChannels\<close>; with a client and no docker option, a panic before either; with
  no client, \<^verbatim>\<open>closeChannels\<close> alone.
\<close>

lemma StartDeferred_Some:
  assumes "cli d = Some c" and "Docker (inCmd d) = Some opt"
    and "StartDeferred h r d = (res, d')"
  shows "res = Inr (case r of Inl err \<Rightarrow> fst (handleErrors h err d) | Inr out \<Rightarrow> out) \<and>
         trace d' = trace d @
           (if IsDeleteContainer opt then [ContainerRemove (ctx d') (containerId d') True]
            else if IsStopContainer opt then [ContainerStop (ctx d') (containerId d') None]
            else []) @ [CloseChannels] \<and>
         inCmd d' = inCmd d \<and> containerId d' = containerId d \<and> cli d' = cli d"
proof -
  obtain out1 d1 where h1:
    "(case r of Inl err \<Rightarrow> handleErrors h err d | Inr out \<Rightarrow> (out, d)) = (out1, d1)"
    by force
  have f1: "cli d1 = cli d \<and> inCmd d1 = inCmd d \<and> trace d1 = trace d \<and>
            containerId d1 = containerId d"
    using h1 by (cases r) (auto dest: handleErrors_fields)
  have o1: "out1 = (case r of Inl err \<Rightarrow> fst (handleErrors h err d) | Inr out \<Rightarrow> out)"
    using h1 by (cases r) auto
  from f1 assms(1,2) have c1: "cli d1 = Some c" and p1: "Docker (inCmd d1) = Some opt"
    by simp_all
  from assms(3) h1 c1 have "(res, d') = (Inr out1, closeChannels (snd (cleanupContainer d1)))"
    by (simp add: StartDeferred_def cleanupContainer_Some [OF c1 p1])
  then show ?thesis using f1 o1
    by (simp add: cleanupContainer_Some [OF c1 p1] closeChannels_def emit_fields)
qed

lemma StartDeferred_nil_option:
  assumes "cli d = Some c" and "Docker (inCmd d) = None"
    and "StartDeferred h r d = (res, d')"
  shows "res = Inl NilPointerDereference \<and> trace d' = trace d \<and> inCmd d' = inCmd d \<and>
         containerId d' = containerId d \<and> cli d' = cli d"
proof -
  obtain out1 d1 where h1:
    "(case r of Inl err \<Rightarrow> handleErrors h err d | Inr out \<Rightarrow> (out, d)) = (out1, d1)"
    by force
  have f1: "cli d1 = cli d \<and> inCmd d1 = inCmd d \<and> trace d1 = trace d \<and>
            containerId d1 = containerId d"
    using h1 by (cases r) (auto dest: handleErrors_fields)
  from f1 assms(1,2) have c1: "cli d1 = Some c" and p1: "Docker (inCmd d1) = None"
    by simp_all
  from assms(3) h1 c1 have "(res, d') = (Inl NilPointerDereference, d1)"
    by (simp add: StartDeferred_def cleanupContainer_nil [OF p1])
  then show ?thesis using f1 by simp
qed

lemma StartDeferred_None:
  assumes "cli d = None" and "StartDeferred h r d = (res, d')"
  shows "res = Inr (case r of Inl err \<Rightarrow> fst (handleErrors h err d) | Inr out \<Rightarrow> out) \<and>
         trace d' = trace d @ [CloseChannels]"
proof -
  obtain out1 d1 where h1:
    "(case r of Inl err \<Rightarrow> handleErrors h err d | Inr out \<Rightarrow> (out, d)) = (out1, d1)"
    by force
  have f1: "cli d1 = cli d \<and> inCmd d1 = inCmd d \<and> trace d1 = trace d \<and>
            containerId d1 = containerId d"
    using h1 by (cases r) (auto dest: handleErrors_fields)
  have o1: "out1 = (case r of Inl err \<Rightarrow> fst (handleErrors h err d) | Inr out \<Rightarrow> out)"
    using h1 by (cases r) auto
  from f1 assms(1) have c1: "cli d1 = None" by simp
  from assms(2) h1 c1 have "(res, d') = (Inr out1, closeChannels d1)"
    by (simp add: StartDeferred_def)
  then show ?thesis using f1 o1 by (simp add: closeChannels_def emit_fields)
qed

text \<open>
  \<^verbatim>\<open>Start\<close> returns whenever the daemon never reports a running exec session: one
  inspection in the loop is then enough.
\<close>

lemma pollExit_returns:
  assumes "\<forall>c tr cx e i. cli d = Some c \<and> onContainerExecInspect c tr cx e = Inr i \<longrightarrow> \<not> Running i"
  shows "pollExit (Suc fuel) eid d \<noteq> None"
proof (cases "cli d")
  case None
  then show ?thesis by (simp add: cliCall_None)
next
  case (Some c)
  then show ?thesis using assms
    by (cases "onContainerExecInspect c (trace d) (ctx d) eid") (auto simp: cliCall_Some)
qed

lemma waitForExit_returns:
  assumes "\<forall>c tr cx e i. cli d = Some c \<and> onContainerExecInspect c tr cx e = Inr i \<longrightarrow> \<not> Running i"
  shows "waitForExit h (Suc fuel) eid d \<noteq> None"
proof (cases "cli d")
  case None
  then show ?thesis by (simp add: waitForExit_def cliCall_None)
next
  case (Some c)
  show ?thesis
  proof (cases "onContainerExecInspect c (trace d) (ctx d) eid")
    case (Inl err)
    with Some show ?thesis by (simp add: waitForExit_def cliCall_Some)
  next
    case (Inr inspect)
    let ?d1 = "toStartStatus h (Pid inspect) (emit (ContainerExecInspect (ctx d) eid) d)"
    have "\<forall>c tr cx e i. cli ?d1 = Some c \<and> onContainerExecInspect c tr cx e = Inr i \<longrightarrow> \<not> Running i"
      using assms by (simp add: toStartStatus_fields emit_fields)
    from pollExit_returns [OF this] have "pollExit (Suc fuel) eid ?d1 \<noteq> None" .
    then obtain x where "pollExit (Suc fuel) eid ?d1 = Some x" by blast
    with Some Inr show ?thesis
      by (cases x) (auto simp: waitForExit_def cliCall_Some simp del: pollExit.simps
                         split: sum.splits)
  qed
qed

lemma Start_returns:
  assumes "\<forall>c tr cx e i. cli d = Some c \<and> onContainerExecInspect c tr cx e = Inr i \<longrightarrow> \<not> Running i"
  shows "Start h (Suc fuel) d \<noteq> None"
proof -
  obtain r1 d1 where p1: "pullImage (emit (WgAdd 2) d) = (r1, d1)" by force
  obtain r2 d2 where p2: "startContainer d1 = (r2, d2)" by force
  obtain r3 d3 where p3: "copyPlugins h d2 = (r3, d3)" by force
  obtain r4 d4 where p4: "runCmdInContainer d3 = (r4, d4)" by force
  note f1 = pullImage_frame [OF p1] and f2 = startContainer_frame [OF p2]
    and f3 = copyPlugins_frame [OF p3] and f4 = runCmdInContainer_frame [OF p4]
  have "cli d4 = cli d" using f1 f2 f3 f4 by (simp add: emit_fields)
  with assms
  have "\<forall>c tr cx e i. cli d4 = Some c \<and> onContainerExecInspect c tr cx e = Inr i \<longrightarrow> \<not> Running i"
    by simp
  from waitForExit_returns [OF this]
  have w: "\<And>eid. waitForExit h (Suc fuel) eid d4 \<noteq> None" by simp
  have "StartBody h (Suc fuel) d \<noteq> None"
  proof (cases r4)
    case (Inl p)
    with p1 p2 p3 p4 show ?thesis
      by (auto simp: StartBody_def split: sum.splits prod.splits option.splits)
  next
    case (Inr eid)
    from w [of eid] obtain x where "waitForExit h (Suc fuel) eid d4 = Some x" by blast
    with p1 p2 p3 p4 Inr show ?thesis
      by (cases x) (auto simp: StartBody_def split: sum.splits prod.splits option.splits)
  qed
  then show ?thesis by (auto simp: Start_def split: option.splits)
qed

text \<open>What the deferred function returns and leaves in the result.\<close>

lemma StartBody_Inr:
  assumes "StartBody h fuel d = Some (Inr out, d')"
  shows "\<exists>exitCode d6. StartFinish h exitCode d6 = (out, d')"
  using assms
  by (auto simp: StartBody_def split: sum.splits prod.splits option.splits)

lemma handleErrors_terminal:
  "IsFinishStatus (CmdResult (snd (handleErrors h err d)))"
  by (simp add: handleErrors_def IsFinishStatus_def toTimeOutStatus_def toKilledStatus_def
        toErrorStatus_def)

lemma StartFinish_terminal:
  "IsFinishStatus (CmdResult (snd (StartFinish h exitCode d)))"
  by (simp add: StartFinish_def IsFinishStatus_def toFinishStatus_def)

lemma StartDeferred_after_handle:
  "\<exists>out1 d1. (case r of Inl err \<Rightarrow> handleErrors h err d | Inr out \<Rightarrow> (out, d)) = (out1, d1) \<and>
     (StartDeferred h r d = (Inr out1, closeChannels (snd (cleanupContainer d1))) \<or>
      StartDeferred h r d = (Inr out1, closeChannels d1) \<or>
      (\<exists>p. StartDeferred h r d = (Inl p, snd (cleanupContainer d1))))"
proof -
  obtain out1 d1 where h1:
    "(case r of Inl err \<Rightarrow> handleErrors h err d | Inr out \<Rightarrow> (out, d)) = (out1, d1)"
    by force
  obtain p d2 where c: "cleanupContainer d1 = (p, d2)" by force
  have "StartDeferred h r d = (Inr out1, closeChannels (snd (cleanupContainer d1))) \<or>
      StartDeferred h r d = (Inr out1, closeChannels d1) \<or>
      (\<exists>p. StartDeferred h r d = (Inl p, snd (cleanupContainer d1)))"
    using h1 c by (cases p) (auto simp: StartDeferred_def)
  with h1 show ?thesis by blast
qed

lemma StartDeferred_result:
  "CmdResult (snd (StartDeferred h r d)) =
     (case r of Inl err \<Rightarrow> CmdResult (snd (handleErrors h err d)) | Inr out \<Rightarrow> CmdResult d)"
proof -
  from StartDeferred_after_handle [where r = r and h = h and d = d] obtain out1 d1 where
    h1: "(case r of Inl err \<Rightarrow> handleErrors h err d | Inr out \<Rightarrow> (out, d)) = (out1, d1)"
    and e: "StartDeferred h r d = (Inr out1, closeChannels (snd (cleanupContainer d1))) \<or>
      StartDeferred h r d = (Inr out1, closeChannels d1) \<or>
      (\<exists>p. StartDeferred h r d = (Inl p, snd (cleanupContainer d1)))"
    by (elim exE conjE)
  from e have "CmdResult (snd (StartDeferred h r d)) = CmdResult d1"
    by (auto simp: closeChannels_def emit_fields cleanupContainer_fields)
  with h1 show ?thesis by (cases r) auto
qed

lemma StartDeferred_ctx:
  "ctx (snd (StartDeferred h r d)) =
     (case r of Inl err \<Rightarrow> ctx (snd (handleErrors h err d)) | Inr out \<Rightarrow> ctx d)"
proof -
  from StartDeferred_after_handle [where r = r and h = h and d = d] obtain out1 d1 where
    h1: "(case r of Inl err \<Rightarrow> handleErrors h err d | Inr out \<Rightarrow> (out, d)) = (out1, d1)"
    and e: "StartDeferred h r d = (Inr out1, closeChannels (snd (cleanupContainer d1))) \<or>
      StartDeferred h r d = (Inr out1, closeChannels d1) \<or>
      (\<exists>p. StartDeferred h r d = (Inl p, snd (cleanupContainer d1)))"
    by (elim exE conjE)
  from e have "ctx (snd (StartDeferred h r d)) = ctx d1"
    by (auto simp: closeChannels_def emit_fields cleanupContainer_fields)
  with h1 show ?thesis by (cases r) auto
qed

lemma StartDeferred_out:
  "fst (StartDeferred h r d) =
     (if cli d \<noteq> None \<and> Docker (inCmd d) = None then Inl NilPointerDereference
      else Inr (case r of Inl err \<Rightarrow> fst (handleErrors h err d) | Inr out \<Rightarrow> out))"
proof -
  obtain res d' where e: "StartDeferred h r d = (res, d')" by force
  show ?thesis
  proof (cases "cli d")
    case None
    from StartDeferred_None [OF None e] e None show ?thesis by simp
  next
    case (Some c)
    show ?thesis
    proof (cases "Docker (inCmd d)")
      case None
      from StartDeferred_nil_option [OF Some None e] e Some None show ?thesis by simp
    next
      case (Some opt)
      from StartDeferred_Some [OF \<open>cli d = Some c\<close> Some e] e \<open>cli d = Some c\<close> Some
      show ?thesis by simp
    qed
  qed
qed

lemma Start_ends_terminal:
  assumes "Start h fuel d = Some (res, d')"
  shows "IsFinishStatus (CmdResult d')"
proof -
  from assms obtain r d1 where b: "StartBody h fuel d = Some (r, d1)"
    and e: "StartDeferred h r d1 = (res, d')"
    by (auto simp: Start_def split: option.splits)
  from e have r: "CmdResult d' = CmdResult (snd (StartDeferred h r d1))" by simp
  show ?thesis
  proof (cases r)
    case (Inl err)
    then show ?thesis by (simp add: r StartDeferred_result handleErrors_terminal)
  next
    case (Inr v)
    with b obtain exitCode d6 where "StartFinish h exitCode d6 = (v, d1)"
      by (auto dest: StartBody_Inr)
    then have "d1 = snd (StartFinish h exitCode d6)" by simp
    then show ?thesis using Inr by (simp add: r StartDeferred_result StartFinish_terminal)
  qed
qed

lemma handleErrors_cases:
  "handleErrors h err d =
     (if err = DeadlineExceeded then (None, (toTimeOutStatus h d)\<lparr>ctx := Background\<rparr>)
      else if err = Canceled then (None, (toKilledStatus h d)\<lparr>ctx := Background\<rparr>)
      else (Some err, snd (toErrorStatus h err d)))"
  by (simp add: handleErrors_def)

text \<open>\<^verbatim>\<open>tryToResume\<close> on an executor with a client, call by call.\<close>

lemma tryToResume_Some:
  assumes "cli d = Some c"
  shows "tryToResume d =
     (let cid = ContainerId (inCmd d); d1 = emit (ContainerInspect (ctx d) cid) d
      in if IsEmptyString cid then (Inr False, d)
         else case onContainerInspect c (trace d) (ctx d) cid of
           Inl err \<Rightarrow> if IsErrContainerNotFound (Some err) then (Inr False, d1) else (Inl err, d1)
         | Inr insp \<Rightarrow>
             if StateStatus insp \<noteq> ''exited'' then (Inr False, d1)
             else
               (let d2 = emit (ContainerRestart (ctx d) cid (5 * Second)) d1
                in case onContainerRestart c (trace d1) (ctx d) cid (5 * Second) of
                     None \<Rightarrow> (Inr True, d2\<lparr>containerId := cid,
                                   CmdResult := (CmdResult d2)\<lparr>ResultContainerId := cid\<rparr>\<rparr>)
                   | Some err \<Rightarrow> (Inr False, emit (ContainerRemove (ctx d) cid True) d2)))"
proof -
  have c1: "\<And>ev. cli (emit ev d) = Some c" using assms by (simp add: emit_fields)
  have c2: "\<And>ev ev2. cli (emit ev2 (emit ev d)) = Some c" using assms by (simp add: emit_fields)
  show ?thesis
    by (simp add: tryToResume_def Let_def cliCall_Some [OF assms] cliCall_Some [OF c1]
          cliCall_Some [OF c2] emit_fields split: sum.splits option.splits)
qed

text \<open>\<^verbatim>\<open>initConfig\<close>: the volume loop leaves the variables, the work dir and the container
  configuration alone.\<close>

lemma getVolume_frame:
  assumes "getVolume name d = (r, d')"
  shows "vars d' = vars d \<and> workDir d' = workDir d \<and> containerConfig d' = containerConfig d \<and>
         inCmd d' = inCmd d"
  using assms
  by (auto simp: getVolume_def cliCall_def emit_def split: option.splits sum.splits if_splits)

lemma bindVolumes_frame:
  "bindVolumes vs hc d = (r, d') \<Longrightarrow>
     vars d' = vars d \<and> workDir d' = workDir d \<and> containerConfig d' = containerConfig d \<and>
     inCmd d' = inCmd d"
proof (induction vs arbitrary: hc d)
  case Nil
  then show ?case by auto
next
  case (Cons v vs)
  obtain r1 d1 where g: "getVolume (Name v) d = (r1, d1)" by force
  note f = getVolume_frame [OF g]
  show ?case
  proof (cases r1)
    case (Inl p)
    with Cons.prems g f show ?thesis by auto
  next
    case (Inr okv)
    obtain ok vol where okv: "okv = (ok, vol)" by force
    show ?thesis
    proof (cases ok)
      case True
      with Cons.prems g Inr okv
      have "bindVolumes vs (hc\<lparr>Binds := Binds hc @ [toBindStr v]\<rparr>) d1 = (r, d')" by simp
      from Cons.IH [OF this] f show ?thesis by simp
    next
      case False
      with Cons.prems g Inr okv have "bindVolumes vs hc d1 = (r, d')" by simp
      from Cons.IH [OF this] f show ?thesis by simp
    qed
  qed
qed

text \<open>\<^verbatim>\<open>filepath.Join\<close> of the workspace and one more element.\<close>

lemma splitSeparator_no_separator:
  "CHR ''/'' \<notin> set s \<Longrightarrow> splitSeparator s = [s]"
  by (induction s) auto

lemma filepath_Join_workspace_empty: "filepath_Join [dockerWorkspace, []] = ''/ws''"
  by (simp add: filepath_Join_def filepath_Clean_def dockerWorkspace_def)

lemma filepath_Join_workspace_plain:
  assumes "flow \<noteq> []" and "CHR ''/'' \<notin> set flow" and "flow \<noteq> ''.''" and "flow \<noteq> ''..''"
  shows "filepath_Join [dockerWorkspace, flow] = ''/ws/'' @ flow"
  using assms
  by (simp add: filepath_Join_def filepath_Clean_def dockerWorkspace_def
        splitSeparator_no_separator)

text \<open>
  What \<^verbatim>\<open>waitForExit\<close> returns: the exit code of the daemon's answer to the last
  inspection, which reports the session as not running; the result then holds status
  Running.
\<close>

lemma pollExit_result:
  "cli d = Some c \<Longrightarrow> pollExit fuel eid d = Some (Inr i, d') \<Longrightarrow>
     \<exists>tr. trace d' = tr @ [ContainerExecInspect (ctx d) eid] \<and>
          onContainerExecInspect c tr (ctx d) eid = Inr i \<and> \<not> Running i \<and>
          CmdResult d' = CmdResult d \<and> containerId d' = containerId d"
proof (induction fuel arbitrary: d)
  case 0
  then show ?case by simp
next
  case (Suc fuel)
  show ?case
  proof (cases "onContainerExecInspect c (trace d) (ctx d) eid")
    case (Inl err)
    with Suc.prems show ?thesis by (simp add: cliCall_Some)
  next
    case (Inr inspect)
    show ?thesis
    proof (cases "Running inspect")
      case True
      let ?d1 = "emit (Sleep (1 * Second)) (emit (ContainerExecInspect (ctx d) eid) d)"
      from Suc.prems Inr True have p: "pollExit fuel eid ?d1 = Some (Inr i, d')"
        by (simp add: cliCall_Some)
      have c1: "cli ?d1 = Some c" using Suc.prems(1) by (simp add: emit_fields)
      from Suc.IH [OF c1 p] show ?thesis by (simp add: emit_fields)
    next
      case False
      with Suc.prems Inr show ?thesis by (auto simp: cliCall_Some emit_fields)
    qed
  qed
qed

lemma waitForExit_result:
  assumes "cli d = Some c" and "waitForExit h fuel eid d = Some (Inr exitCode, d')"
  shows "\<exists>tr i. trace d' = tr @ [ContainerExecInspect (ctx d) eid] \<and>
           onContainerExecInspect c tr (ctx d) eid = Inr i \<and> \<not> Running i \<and>
           exitCode = ExitCode i \<and> Status (CmdResult d') = CmdStatusRunning \<and>
           containerId d' = containerId d"
proof (cases "onContainerExecInspect c (trace d) (ctx d) eid")
  case (Inl err)
  with assms show ?thesis by (simp add: waitForExit_def cliCall_Some)
next
  case (Inr inspect)
  let ?d1 = "toStartStatus h (Pid inspect) (emit (ContainerExecInspect (ctx d) eid) d)"
  from assms Inr obtain i where p: "pollExit fuel eid ?d1 = Some (Inr i, d')"
    and x: "exitCode = ExitCode i"
    by (auto simp: waitForExit_def cliCall_Some split: option.splits sum.splits prod.splits)
  have c1: "cli ?d1 = Some c" using assms(1) by (simp add: toStartStatus_fields emit_fields)
  have s1: "Status (CmdResult ?d1) = CmdStatusRunning" by (simp add: toStartStatus_def)
  from pollExit_result [OF c1 p] x s1 show ?thesis
    by (auto simp: toStartStatus_fields emit_fields)
qed

text \<open>
  A body of \<^verbatim>\<open>Start\<close> that does not panic: it had a client, its last two calls are the
  inspection that found the session over and the copy of the env dump, and the end of the
  body has written the exit code of that inspection into the result.
\<close>

lemma StartBody_exit_code:
  assumes "StartBody h fuel d = Some (Inr v, d1)"
  shows "\<exists>c tr eid i. cli d = Some c \<and>
           trace d1 = tr @ [ContainerExecInspect (ctx d) eid,
                            CopyFromContainer (ctx d) (containerId d1) dockerEnvFile] \<and>
           onContainerExecInspect c tr (ctx d) eid = Inr i \<and> \<not> Running i \<and>
           Code (CmdResult d1) = ExitCode i \<and>
           Status (CmdResult d1) =
             (if ExitCode i = 0 then CmdStatusSuccess else CmdStatusException)"
proof -
  obtain r1 x1 where p1: "pullImage (emit (WgAdd 2) d) = (r1, x1)" by force
  obtain r2 x2 where p2: "startContainer x1 = (r2, x2)" by force
  obtain r3 x3 where p3: "copyPlugins h x2 = (r3, x3)" by force
  obtain r4 x4 where p4: "runCmdInContainer x3 = (r4, x4)" by force
  note f1 = pullImage_frame [OF p1] and f2 = startContainer_frame [OF p2]
    and f3 = copyPlugins_frame [OF p3] and f4 = runCmdInContainer_frame [OF p4]
  from assms p1 p2 p3 p4 obtain eid exitCode x5 x6 where
    w: "waitForExit h fuel eid x4 = Some (Inr exitCode, x5)"
    and e: "exportEnv h x5 = (Inr (), x6)"
    and s: "StartFinish h exitCode x6 = (v, d1)"
    by (auto simp: StartBody_def split: sum.splits prod.splits option.splits)
  have c4: "cli x4 = cli d" and t4: "ctx x4 = ctx d"
    using f1 f2 f3 f4 by (simp_all add: emit_fields)
  obtain c where c: "cli d = Some c"
  proof (cases "cli d")
    case None
    with c4 w show ?thesis by (simp add: waitForExit_def cliCall_None)
  next
    case (Some c)
    then show ?thesis by (rule that)
  qed
  with c4 have cx4: "cli x4 = Some c" by simp
  from waitForExit_result [OF cx4 w] t4 obtain tr i where
    r: "trace x5 = tr @ [ContainerExecInspect (ctx d) eid]"
       "onContainerExecInspect c tr (ctx d) eid = Inr i" "\<not> Running i"
       "exitCode = ExitCode i" "Status (CmdResult x5) = CmdStatusRunning"
    by auto
  from waitForExit_frame [OF w] cx4 t4 have cx5: "cli x5 = Some c" and t5: "ctx x5 = ctx d"
    by simp_all
  from e cx5 t5 have x6: "trace x6 = trace x5 @ [CopyFromContainer (ctx d) (containerId x5) dockerEnvFile]"
      "Status (CmdResult x6) = Status (CmdResult x5)" "containerId x6 = containerId x5"
    by (auto simp: exportEnv_def cliCall_Some emit_fields split: sum.splits)
  from r(5) x6(2) have n: "\<not> IsFinishStatus (CmdResult x6)"
    by (simp add: IsFinishStatus_def consts_defs)
  with s have d1: "d1 = toFinishStatus h exitCode x6" by (simp add: StartFinish_def)
  have "trace d1 = tr @ [ContainerExecInspect (ctx d) eid,
                            CopyFromContainer (ctx d) (containerId d1) dockerEnvFile]"
    using r(1) x6 by (simp add: d1 toFinishStatus_def)
  moreover have "Code (CmdResult d1) = ExitCode i" by (simp add: d1 toFinishStatus_def r(4))
  moreover have "Status (CmdResult d1) =
             (if ExitCode i = 0 then CmdStatusSuccess else CmdStatusException)"
    by (simp add: d1 toFinishStatus_def r(4) CmdExitCodeSuccess_def)
  ultimately show ?thesis using c r(2,3) by blast
qed

section \<open>Properties of the container executor\<close>


subsection \<open>Error mapping of \<^verbatim>\<open>Start\<close> (C1)\<close>

text \<open>
  C1, as the code has it. The mapping is that of \<^verbatim>\<open>handleErrors\<close>, and it applies to the
  error the body of \<^verbatim>\<open>Start\<close> panics with (\<^verbatim>\<open>util.PanicIfErr\<close> on the error of a Docker
  call, or a nil pointer). When the body panics with \<^verbatim>\<open>context.Canceled\<close>, the result
  records Killed, the executor's context is reset to the background context and the
  result of \<^verbatim>\<open>Start\<close> is nil; with \<^verbatim>\<open>context.DeadlineExceeded\<close> it records Timeout, with the
  same reset and a nil result. Any other error the body panics with is recorded as
  Exception with the error's message in \<open>Error\<close>, the context stays, and the result of
  \<^verbatim>\<open>Start\<close> is that error. When the body does not panic, the result is nil and the
  deferred function leaves the recorded result alone. \<^verbatim>\<open>Start\<close> returns this result unless
  the executor holds a client and its command has no docker option: then the cleanup
  panics and \<^verbatim>\<open>Start\<close> panics with it. With a client and a docker option, the cleanup call
  that follows carries the context as reset. The error of \<^verbatim>\<open>CopyFromContainer\<close> in
  \<^verbatim>\<open>exportEnv\<close> is no panic of the body: with a client, \<^verbatim>\<open>exportEnv\<close> never panics.
\<close>

theorem Start_error_mapping:
  assumes "StartBody h fuel d = Some (r, d1)"
  shows "\<exists>res d'. Start h fuel d = Some (res, d') \<and>
     res = (if cli d \<noteq> None \<and> Docker (inCmd d) = None then Inl NilPointerDereference
            else Inr (case r of
                        Inr v \<Rightarrow> None
                      | Inl err \<Rightarrow> if err = Canceled \<or> err = DeadlineExceeded then None
                                   else Some err)) \<and>
     (case r of
        Inr v \<Rightarrow> v = None \<and> CmdResult d' = CmdResult d1 \<and> ctx d' = ctx d1
      | Inl err \<Rightarrow>
          (if err = Canceled then
             Status (CmdResult d') = CmdStatusKilled \<and> ctx d' = Background
           else if err = DeadlineExceeded then
             Status (CmdResult d') = CmdStatusTimeout \<and> ctx d' = Background
           else Status (CmdResult d') = CmdStatusException \<and>
                Error (CmdResult d') = errorMessage err \<and> ctx d' = ctx d1)) \<and>
     (\<forall>c opt. cli d = Some c \<and> Docker (inCmd d) = Some opt \<longrightarrow>
        trace d' = trace d1 @
          (if IsDeleteContainer opt then [ContainerRemove (ctx d') (containerId d1) True]
           else if IsStopContainer opt then [ContainerStop (ctx d') (containerId d1) None]
           else []) @ [CloseChannels]) \<and>
     (\<forall>x c. cli x = Some c \<longrightarrow> fst (exportEnv h x) = Inr ())"
proof -
  obtain res d' where e: "StartDeferred h r d1 = (res, d')" by force
  with assms have s: "Start h fuel d = Some (res, d')" by (simp add: Start_def)
  have o: "res = fst (StartDeferred h r d1)" and d': "d' = snd (StartDeferred h r d1)"
    using e by simp_all
  from StartBody_frame [OF assms] have f: "cli d1 = cli d" "inCmd d1 = inCmd d" by simp_all
  have v: "v = None" if "r = Inr v" for v
  proof -
    from that assms obtain exitCode d6 where "StartFinish h exitCode d6 = (v, d1)"
      by (auto dest: StartBody_Inr)
    then show ?thesis by (auto dest: StartFinish_frame)
  qed
  have a: "res = (if cli d \<noteq> None \<and> Docker (inCmd d) = None then Inl NilPointerDereference
            else Inr (case r of
                        Inr v \<Rightarrow> None
                      | Inl err \<Rightarrow> if err = Canceled \<or> err = DeadlineExceeded then None
                                   else Some err))"
    using v by (cases r) (auto simp: o StartDeferred_out f handleErrors_cases)
  have m: "case r of
        Inr v \<Rightarrow> v = None \<and> CmdResult d' = CmdResult d1 \<and> ctx d' = ctx d1
      | Inl err \<Rightarrow>
          (if err = Canceled then
             Status (CmdResult d') = CmdStatusKilled \<and> ctx d' = Background
           else if err = DeadlineExceeded then
             Status (CmdResult d') = CmdStatusTimeout \<and> ctx d' = Background
           else Status (CmdResult d') = CmdStatusException \<and>
                Error (CmdResult d') = errorMessage err \<and> ctx d' = ctx d1)"
    using v
    by (cases r)
       (simp_all add: d' StartDeferred_result StartDeferred_ctx handleErrors_cases
          toTimeOutStatus_def toKilledStatus_def toErrorStatus_def)
  have t: "\<forall>c opt. cli d = Some c \<and> Docker (inCmd d) = Some opt \<longrightarrow>
        trace d' = trace d1 @
          (if IsDeleteContainer opt then [ContainerRemove (ctx d') (containerId d1) True]
           else if IsStopContainer opt then [ContainerStop (ctx d') (containerId d1) None]
           else []) @ [CloseChannels]"
  proof (intro allI impI)
    fix c opt assume c: "cli d = Some c \<and> Docker (inCmd d) = Some opt"
    with f have c1: "cli d1 = Some c" and p1: "Docker (inCmd d1) = Some opt" by simp_all
    from StartDeferred_Some [OF c1 p1 e]
    show "trace d' = trace d1 @
          (if IsDeleteContainer opt then [ContainerRemove (ctx d') (containerId d1) True]
           else if IsStopContainer opt then [ContainerStop (ctx d') (containerId d1) None]
           else []) @ [CloseChannels]"
      by simp
  qed
  have x: "\<forall>x c. cli x = Some c \<longrightarrow> fst (exportEnv h x) = Inr ()"
    by (auto simp: exportEnv_def cliCall_Some split: sum.splits)
  from s a m t x show ?thesis by blast
qed

theorem Start_error_mapping_witness:
  "(\<exists>d' pre. Start testHost 2 (readyExecutor cancelledDaemon testCmd) = Some (Inr None, d') \<and>
      Status (CmdResult d') = CmdStatusKilled \<and> ProcessId (CmdResult d') = 42 \<and>
      ctx d' = Background \<and>
      trace d' = pre @ [ContainerRemove Background ''c-new'' True, CloseChannels]) \<and>
   (\<exists>d'. Start testHost 2 (readyExecutor deadlineDaemon testCmd) = Some (Inr None, d') \<and>
      Status (CmdResult d') = CmdStatusTimeout \<and> ProcessId (CmdResult d') = 42 \<and>
      ctx d' = Background) \<and>
   (\<exists>d'. Start testHost 1 (readyExecutor pullFailsDaemon testCmd) =
        Some (Inr (Some (OtherError ''pull access denied'')), d') \<and>
      Status (CmdResult d') = CmdStatusException \<and>
      Error (CmdResult d') = ''pull access denied'') \<and>
   (\<exists>d'. Start testHost 1 (readyExecutor testDaemon testCmd) = Some (Inr None, d') \<and>
      Status (CmdResult d') = CmdStatusSuccess)"
proof -
  have o: "\<And>c. Docker (inCmd (readyExecutor c testCmd)) =
      Some \<lparr>Image = ''ubuntu:18.04'', Entrypoint = [''/bin/bash''], Ports = [],
            NetworkMode = [], IsStopContainer = True, IsDeleteContainer = True\<rparr>"
    by (simp add: consts_defs fixture_defs exec_defs Let_def)
  have c: "\<And>c. cli (readyExecutor c testCmd) = Some c"
    by (simp add: consts_defs fixture_defs exec_defs Let_def)
  have "\<exists>d1. StartBody testHost 2 (readyExecutor cancelledDaemon testCmd) =
          Some (Inl Canceled, d1) \<and> containerId d1 = ''c-new'' \<and> ProcessId (CmdResult d1) = 42"
    by (simp add: consts_defs fixture_defs exec_defs Let_def eval_nat_numeral)
  then obtain k1 where
    k: "StartBody testHost 2 (readyExecutor cancelledDaemon testCmd) = Some (Inl Canceled, k1)"
    and ki: "containerId k1 = ''c-new''" and kp: "ProcessId (CmdResult k1) = 42"
    by (elim exE conjE)
  from Start_error_mapping [OF k] obtain res kd where
    k1: "Start testHost 2 (readyExecutor cancelledDaemon testCmd) = Some (res, kd)"
    and k2: "res = (if cli (readyExecutor cancelledDaemon testCmd) \<noteq> None \<and>
                      Docker (inCmd (readyExecutor cancelledDaemon testCmd)) = None
                   then Inl NilPointerDereference else Inr None)"
    and k3: "Status (CmdResult kd) = CmdStatusKilled" "ctx kd = Background"
    and k4: "\<forall>c opt. cli (readyExecutor cancelledDaemon testCmd) = Some c \<and>
                Docker (inCmd (readyExecutor cancelledDaemon testCmd)) = Some opt \<longrightarrow>
        trace kd = trace k1 @
          (if IsDeleteContainer opt then [ContainerRemove (ctx kd) (containerId k1) True]
           else if IsStopContainer opt then [ContainerStop (ctx kd) (containerId k1) None]
           else []) @ [CloseChannels]"
    by auto
  from k2 have k2': "res = Inr None" by (simp add: o)
  from k4 [rule_format, OF conjI [OF c o]] k3 ki
  have k5: "trace kd = trace k1 @ [ContainerRemove Background ''c-new'' True, CloseChannels]"
    by simp
  have "\<exists>d'. Start testHost 2 (readyExecutor cancelledDaemon testCmd) = Some (Inr None, d') \<and>
          ProcessId (CmdResult d') = 42"
    by (simp add: consts_defs fixture_defs exec_defs Let_def eval_nat_numeral)
  with k1 k2' have k6: "ProcessId (CmdResult kd) = 42" by auto
  from k1 k2' k3 k5 k6
  have a: "\<exists>d' pre. Start testHost 2 (readyExecutor cancelledDaemon testCmd) = Some (Inr None, d') \<and>
      Status (CmdResult d') = CmdStatusKilled \<and> ProcessId (CmdResult d') = 42 \<and>
      ctx d' = Background \<and>
      trace d' = pre @ [ContainerRemove Background ''c-new'' True, CloseChannels]"
    by blast
  have "\<exists>d1. StartBody testHost 2 (readyExecutor deadlineDaemon testCmd) =
          Some (Inl DeadlineExceeded, d1)"
    by (simp add: consts_defs fixture_defs exec_defs Let_def eval_nat_numeral)
  then obtain t1 where
    "StartBody testHost 2 (readyExecutor deadlineDaemon testCmd) = Some (Inl DeadlineExceeded, t1)"
    by (elim exE)
  from Start_error_mapping [OF this] obtain rest td where
    t2: "Start testHost 2 (readyExecutor deadlineDaemon testCmd) = Some (rest, td)"
    and t3: "rest = (if cli (readyExecutor deadlineDaemon testCmd) \<noteq> None \<and>
                      Docker (inCmd (readyExecutor deadlineDaemon testCmd)) = None
                   then Inl NilPointerDereference else Inr None)"
    and t4: "Status (CmdResult td) = CmdStatusTimeout" "ctx td = Background"
    by auto
  from t3 have t3': "rest = Inr None" by (simp add: o)
  have "\<exists>d'. Start testHost 2 (readyExecutor deadlineDaemon testCmd) = Some (Inr None, d') \<and>
          ProcessId (CmdResult d') = 42"
    by (simp add: consts_defs fixture_defs exec_defs Let_def eval_nat_numeral)
  with t2 t3' have t5: "ProcessId (CmdResult td) = 42" by auto
  from t2 t3' t4 t5
  have b: "\<exists>d'. Start testHost 2 (readyExecutor deadlineDaemon testCmd) = Some (Inr None, d') \<and>
      Status (CmdResult d') = CmdStatusTimeout \<and> ProcessId (CmdResult d') = 42 \<and>
      ctx d' = Background"
    by blast
  have "\<exists>d1. StartBody testHost 1 (readyExecutor pullFailsDaemon testCmd) =
          Some (Inl (OtherError ''pull access denied''), d1)"
    by (simp add: consts_defs fixture_defs exec_defs Let_def)
  then obtain p1 where
    "StartBody testHost 1 (readyExecutor pullFailsDaemon testCmd) =
       Some (Inl (OtherError ''pull access denied''), p1)"
    by (elim exE)
  from Start_error_mapping [OF this] obtain resp pd where
    p2: "Start testHost 1 (readyExecutor pullFailsDaemon testCmd) = Some (resp, pd)"
    and p3: "resp = (if cli (readyExecutor pullFailsDaemon testCmd) \<noteq> None \<and>
                      Docker (inCmd (readyExecutor pullFailsDaemon testCmd)) = None
                   then Inl NilPointerDereference
                   else Inr (Some (OtherError ''pull access denied'')))"
    and p4: "Status (CmdResult pd) = CmdStatusException"
            "Error (CmdResult pd) = ''pull access denied''"
    by auto
  from p3 have "resp = Inr (Some (OtherError ''pull access denied''))" by (simp add: o)
  with p2 p4
  have cc: "\<exists>d'. Start testHost 1 (readyExecutor pullFailsDaemon testCmd) =
        Some (Inr (Some (OtherError ''pull access denied'')), d') \<and>
      Status (CmdResult d') = CmdStatusException \<and>
      Error (CmdResult d') = ''pull access denied''"
    by blast
  have "\<exists>d1. StartBody testHost 1 (readyExecutor testDaemon testCmd) = Some (Inr None, d1) \<and>
          Status (CmdResult d1) = CmdStatusSuccess"
    by (simp add: consts_defs fixture_defs exec_defs Let_def)
  then obtain s1 where
    s: "StartBody testHost 1 (readyExecutor testDaemon testCmd) = Some (Inr None, s1)"
    and ss: "Status (CmdResult s1) = CmdStatusSuccess"
    by (elim exE conjE)
  from Start_error_mapping [OF s] obtain ress sd where
    s2: "Start testHost 1 (readyExecutor testDaemon testCmd) = Some (ress, sd)"
    and s3: "ress = (if cli (readyExecutor testDaemon testCmd) \<noteq> None \<and>
                      Docker (inCmd (readyExecutor testDaemon testCmd)) = None
                   then Inl NilPointerDereference else Inr None)"
    and s4: "CmdResult sd = CmdResult s1"
    by auto
  from s3 have "ress = Inr None" by (simp add: o)
  with s2 s4 ss
  have dd: "\<exists>d'. Start testHost 1 (readyExecutor testDaemon testCmd) = Some (Inr None, d') \<and>
      Status (CmdResult d') = CmdStatusSuccess"
    by auto
  from a b cc dd show ?thesis by (intro conjI)
qed

text \<open>
  The claim as stated fails in two ways. That \<^verbatim>\<open>Start\<close> returns no error for a runtime error
  it records as Exception fails when the image cannot be pulled: the result records
  Exception with the message, and \<^verbatim>\<open>Start\<close> returns the error. That a cancelled job context
  is always recorded as Killed, with the context reset, fails when the cancellation reaches
  the executor as the error of \<^verbatim>\<open>CopyFromContainer\<close>: \<^verbatim>\<open>exportEnv\<close> drops the error, the run
  ends as Success with the job's context still in place, and nothing is recorded.
\<close>

theorem Start_error_mapping_fails:
  "map_option fst (Start testHost 1 (readyExecutor pullFailsDaemon testCmd)) =
     Some (Inr (Some (OtherError ''pull access denied''))) \<and>
   map_option (Status \<circ> CmdResult \<circ> snd) (Start testHost 1 (readyExecutor pullFailsDaemon testCmd)) =
     Some CmdStatusException \<and>
   map_option (Error \<circ> CmdResult \<circ> snd) (Start testHost 1 (readyExecutor pullFailsDaemon testCmd)) =
     Some ''pull access denied'' \<and>
   map_option fst (Start testHost 1 (readyExecutor copyCancelledDaemon testCmd)) =
     Some (Inr None) \<and>
   map_option (Status \<circ> CmdResult \<circ> snd)
     (Start testHost 1 (readyExecutor copyCancelledDaemon testCmd)) = Some CmdStatusSuccess \<and>
   map_option (Error \<circ> CmdResult \<circ> snd)
     (Start testHost 1 (readyExecutor copyCancelledDaemon testCmd)) = Some [] \<and>
   map_option (ctx \<circ> snd) (Start testHost 1 (readyExecutor copyCancelledDaemon testCmd)) =
     Some JobContext"
  by (simp add: consts_defs fixture_defs exec_defs Let_def)

subsection \<open>Resuming a container (C2)\<close>

text \<open>
  C2. On an executor with a client, \<^verbatim>\<open>tryToResume\<close> reports a resumed container only when
  the supplied id is not empty, the inspection finds the container, its status is exactly
  \<^verbatim>\<open>exited\<close>, and the restart, issued with a timeout of 5 seconds (5000000000 ns),
  succeeds; the executor and the result then hold the supplied id and \<^verbatim>\<open>startContainer\<close>
  creates nothing. When the supplied id is not empty, the container is found in status
  \<^verbatim>\<open>exited\<close> and the restart fails, the container is removed with force,
  \<^verbatim>\<open>tryToResume\<close> reports no resume, \<^verbatim>\<open>startContainer\<close> goes on to \<^verbatim>\<open>ContainerCreate\<close>, and
  the id of the container that call creates is the one recorded in the executor and in the
  result.
\<close>

theorem resume_semantics:
  assumes "cli d = Some c"
    and "cid = ContainerId (inCmd d)"
    and "tr1 = trace d @ [ContainerInspect (ctx d) cid]"
    and "resumed = d\<lparr>trace := tr1 @ [ContainerRestart (ctx d) cid 5000000000],
                      containerId := cid,
                      CmdResult := (CmdResult d)\<lparr>ResultContainerId := cid\<rparr>\<rparr>"
  shows
    "(\<forall>d'. tryToResume d = (Inr True, d') \<longrightarrow>
        \<not> IsEmptyString cid \<and>
        (\<exists>insp. onContainerInspect c (trace d) (ctx d) cid = Inr insp \<and>
                StateStatus insp = ''exited'') \<and>
        onContainerRestart c tr1 (ctx d) cid 5000000000 = None \<and>
        d' = resumed) \<and>
     (\<forall>insp. \<not> IsEmptyString cid \<and> onContainerInspect c (trace d) (ctx d) cid = Inr insp \<and>
             StateStatus insp = ''exited'' \<longrightarrow>
        (onContainerRestart c tr1 (ctx d) cid 5000000000 = None \<longrightarrow>
           startContainer d = (Inr (), resumed) \<and>
           ResultContainerId (CmdResult resumed) = cid) \<and>
        (\<forall>err. onContainerRestart c tr1 (ctx d) cid 5000000000 = Some err \<longrightarrow>
           (\<exists>d1. tryToResume d = (Inr False, d1) \<and>
              trace d1 = tr1 @ [ContainerRestart (ctx d) cid 5000000000,
                                ContainerRemove (ctx d) cid True] \<and>
              (\<forall>newid. onContainerCreate c (trace d1) (ctx d) (containerConfig d) (hostConfig d) =
                         Inr newid \<longrightarrow>
                 ResultContainerId (CmdResult (snd (startContainer d))) = newid \<and>
                 containerId (snd (startContainer d)) = newid \<and>
                 (\<exists>rest. trace (snd (startContainer d)) =
                    trace d1 @ ContainerCreate (ctx d) (containerConfig d) (hostConfig d) # rest)))))"
proof (intro conjI allI impI)
  fix d'
  assume t: "tryToResume d = (Inr True, d')"
  show "\<not> IsEmptyString cid"
    using t assms(2) by (auto simp: tryToResume_Some [OF assms(1)] Let_def split: if_splits)
  show "\<exists>insp. onContainerInspect c (trace d) (ctx d) cid = Inr insp \<and> StateStatus insp = ''exited''"
    using t assms(2)
    by (auto simp: tryToResume_Some [OF assms(1)] Let_def split: if_splits sum.splits option.splits)
  show "onContainerRestart c tr1 (ctx d) cid 5000000000 = None"
    using t assms(2,3)
    by (auto simp: tryToResume_Some [OF assms(1)] Let_def emit_fields Second_def
             split: if_splits sum.splits option.splits)
  show "d' = resumed"
    using t assms(2,3,4)
    by (auto simp: tryToResume_Some [OF assms(1)] Let_def emit_def Second_def
             split: if_splits sum.splits option.splits)
next
  fix insp
  assume a: "\<not> IsEmptyString cid \<and> onContainerInspect c (trace d) (ctx d) cid = Inr insp \<and>
             StateStatus insp = ''exited''"
  assume r: "onContainerRestart c tr1 (ctx d) cid 5000000000 = None"
  have "tryToResume d = (Inr True, resumed)"
    using a r assms(2,3,4)
    by (simp add: tryToResume_Some [OF assms(1)] Let_def emit_def Second_def)
  then show "startContainer d = (Inr (), resumed)" by (simp add: startContainer_def)
  show "ResultContainerId (CmdResult resumed) = cid" by (simp add: assms(4))
next
  fix insp err
  assume a: "\<not> IsEmptyString cid \<and> onContainerInspect c (trace d) (ctx d) cid = Inr insp \<and>
             StateStatus insp = ''exited''"
  assume r: "onContainerRestart c tr1 (ctx d) cid 5000000000 = Some err"
  let ?d1 = "emit (ContainerRemove (ctx d) cid True)
               (emit (ContainerRestart (ctx d) cid (5 * Second))
                  (emit (ContainerInspect (ctx d) cid) d))"
  have t: "tryToResume d = (Inr False, ?d1)"
    using a r assms(2,3)
    by (simp add: tryToResume_Some [OF assms(1)] Let_def emit_fields Second_def)
  have tr: "trace ?d1 = tr1 @ [ContainerRestart (ctx d) cid 5000000000,
                                ContainerRemove (ctx d) cid True]"
    by (simp add: emit_fields assms(3) Second_def)
  have c1: "cli ?d1 = Some c" using assms(1) by (simp add: emit_fields)
  have "\<forall>newid. onContainerCreate c (trace ?d1) (ctx d) (containerConfig d) (hostConfig d) =
                         Inr newid \<longrightarrow>
                 ResultContainerId (CmdResult (snd (startContainer d))) = newid \<and>
                 containerId (snd (startContainer d)) = newid \<and>
                 (\<exists>rest. trace (snd (startContainer d)) =
                    trace ?d1 @ ContainerCreate (ctx d) (containerConfig d) (hostConfig d) # rest)"
  proof (intro allI impI)
    fix newid
    assume n: "onContainerCreate c (trace ?d1) (ctx d) (containerConfig d) (hostConfig d) = Inr newid"
    let ?d2 = "emit (ContainerCreate (ctx d) (containerConfig d) (hostConfig d)) ?d1"
    let ?d3 = "?d2\<lparr>containerId := newid, CmdResult := (CmdResult ?d2)\<lparr>ResultContainerId := newid\<rparr>\<rparr>"
    have c3: "cli ?d3 = Some c" using assms(1) by (simp add: emit_fields)
    have s: "startContainer d =
       (case PanicIfErr (onContainerStart c (trace ?d3) (ctx d) newid) of
          Inl p \<Rightarrow> (Inl p, emit (ContainerStart (ctx d) newid) ?d3)
        | Inr u \<Rightarrow> (Inr (), emit (ContainerStart (ctx d) newid) ?d3))"
      using n
      by (simp add: startContainer_def t cliCall_def emit_def assms(1) Let_def
            split: sum.splits)
    show "ResultContainerId (CmdResult (snd (startContainer d))) = newid \<and>
                 containerId (snd (startContainer d)) = newid \<and>
                 (\<exists>rest. trace (snd (startContainer d)) =
                    trace ?d1 @ ContainerCreate (ctx d) (containerConfig d) (hostConfig d) # rest)"
      by (cases "PanicIfErr (onContainerStart c (trace ?d3) (ctx d) newid)")
         (simp_all add: s emit_fields)
  qed
  with t tr
  show "\<exists>d1. tryToResume d = (Inr False, d1) \<and>
              trace d1 = tr1 @ [ContainerRestart (ctx d) cid 5000000000,
                                ContainerRemove (ctx d) cid True] \<and>
              (\<forall>newid. onContainerCreate c (trace d1) (ctx d) (containerConfig d) (hostConfig d) =
                         Inr newid \<longrightarrow>
                 ResultContainerId (CmdResult (snd (startContainer d))) = newid \<and>
                 containerId (snd (startContainer d)) = newid \<and>
                 (\<exists>rest. trace (snd (startContainer d)) =
                    trace d1 @ ContainerCreate (ctx d) (containerConfig d) (hostConfig d) # rest))"
    by blast
qed

theorem resume_semantics_witness:
  "fst (tryToResume (readyExecutor testDaemon resumeCmd)) = Inr True \<and>
   \<not> IsEmptyString ''c-old'' \<and>
   ResultContainerId (CmdResult (snd (startContainer (readyExecutor testDaemon resumeCmd)))) =
     ''c-old'' \<and>
   trace (snd (startContainer (readyExecutor testDaemon resumeCmd))) =
     [ContainerInspect JobContext ''c-old'', ContainerRestart JobContext ''c-old'' 5000000000] \<and>
   ResultContainerId (CmdResult (snd (startContainer (readyExecutor restartFailsDaemon resumeCmd)))) =
     ''c-new'' \<and>
   (\<exists>rest. trace (snd (startContainer (readyExecutor restartFailsDaemon resumeCmd))) =
     [ContainerInspect JobContext ''c-old'', ContainerRestart JobContext ''c-old'' 5000000000,
      ContainerRemove JobContext ''c-old'' True] @
     ContainerCreate JobContext (containerConfig (readyExecutor restartFailsDaemon resumeCmd))
       (hostConfig (readyExecutor restartFailsDaemon resumeCmd)) # rest)"
proof -
  let ?d = "readyExecutor testDaemon resumeCmd"
  let ?tr = "[ContainerInspect JobContext ''c-old'']"
  let ?r = "?d\<lparr>trace := ?tr @ [ContainerRestart JobContext ''c-old'' 5000000000],
               containerId := ''c-old'',
               CmdResult := (CmdResult ?d)\<lparr>ResultContainerId := ''c-old''\<rparr>\<rparr>"
  have c: "cli ?d = Some testDaemon"
    by (simp add: consts_defs fixture_defs exec_defs Let_def)
  have i: "''c-old'' = ContainerId (inCmd ?d)"
    by (simp add: consts_defs fixture_defs exec_defs Let_def)
  have x: "ctx ?d = JobContext" "trace ?d = []"
    by (simp_all add: consts_defs fixture_defs exec_defs Let_def)
  have t: "?tr = trace ?d @ [ContainerInspect (ctx ?d) ''c-old'']" by (simp add: x)
  have r: "?r = ?d\<lparr>trace := ?tr @ [ContainerRestart (ctx ?d) ''c-old'' 5000000000],
               containerId := ''c-old'',
               CmdResult := (CmdResult ?d)\<lparr>ResultContainerId := ''c-old''\<rparr>\<rparr>"
    by (simp add: x)
  note th = resume_semantics [OF c i t r]
  have p: "\<not> IsEmptyString ''c-old'' \<and>
      onContainerInspect testDaemon (trace ?d) (ctx ?d) ''c-old'' =
        Inr \<lparr>InspectID = ''c-old'', StateStatus = ''exited''\<rparr> \<and>
      StateStatus \<lparr>InspectID = ''c-old'', StateStatus = ''exited''\<rparr> = ''exited''"
    by (simp add: IsEmptyString_def testDaemon_def)
  have q: "onContainerRestart testDaemon ?tr (ctx ?d) ''c-old'' 5000000000 = None"
    by (simp add: testDaemon_def)
  from th [THEN conjunct2, rule_format, OF p, THEN conjunct1, rule_format, OF q]
  have a: "startContainer ?d = (Inr (), ?r)" by blast
  have a1: "ResultContainerId (CmdResult (snd (startContainer ?d))) = ''c-old''"
    by (simp add: a)
  have a2: "trace (snd (startContainer ?d)) =
     [ContainerInspect JobContext ''c-old'', ContainerRestart JobContext ''c-old'' 5000000000]"
    by (simp add: a)
  have "\<exists>d'. tryToResume ?d = (Inr True, d')"
    by (simp add: consts_defs fixture_defs exec_defs Let_def)
  then obtain rd where rt: "tryToResume ?d = (Inr True, rd)" by (elim exE)
  from th [THEN conjunct1, rule_format, OF rt]
  have a0: "\<not> IsEmptyString ''c-old''" by (elim conjE)
  from rt have a3: "fst (tryToResume ?d) = Inr True" by simp
  let ?e = "readyExecutor restartFailsDaemon resumeCmd"
  let ?s = "?e\<lparr>trace := ?tr @ [ContainerRestart JobContext ''c-old'' 5000000000],
               containerId := ''c-old'',
               CmdResult := (CmdResult ?e)\<lparr>ResultContainerId := ''c-old''\<rparr>\<rparr>"
  have c': "cli ?e = Some restartFailsDaemon"
    by (simp add: consts_defs fixture_defs exec_defs Let_def)
  have i': "''c-old'' = ContainerId (inCmd ?e)"
    by (simp add: consts_defs fixture_defs exec_defs Let_def)
  have x': "ctx ?e = JobContext" "trace ?e = []"
    by (simp_all add: consts_defs fixture_defs exec_defs Let_def)
  have t': "?tr = trace ?e @ [ContainerInspect (ctx ?e) ''c-old'']" by (simp add: x')
  have r': "?s = ?e\<lparr>trace := ?tr @ [ContainerRestart (ctx ?e) ''c-old'' 5000000000],
               containerId := ''c-old'',
               CmdResult := (CmdResult ?e)\<lparr>ResultContainerId := ''c-old''\<rparr>\<rparr>"
    by (simp add: x')
  note th' = resume_semantics [OF c' i' t' r']
  have p': "\<not> IsEmptyString ''c-old'' \<and>
      onContainerInspect restartFailsDaemon (trace ?e) (ctx ?e) ''c-old'' =
        Inr \<lparr>InspectID = ''c-old'', StateStatus = ''exited''\<rparr> \<and>
      StateStatus \<lparr>InspectID = ''c-old'', StateStatus = ''exited''\<rparr> = ''exited''"
    by (simp add: IsEmptyString_def testDaemon_def restartFailsDaemon_def)
  have q': "onContainerRestart restartFailsDaemon ?tr (ctx ?e) ''c-old'' 5000000000 =
              Some (OtherError ''cannot restart'')"
    by (simp add: testDaemon_def restartFailsDaemon_def)
  from th' [THEN conjunct2, rule_format, OF p', THEN conjunct2, rule_format, OF q']
  obtain d1 where b0:
    "tryToResume ?e = (Inr False, d1) \<and>
     trace d1 = ?tr @ [ContainerRestart (ctx ?e) ''c-old'' 5000000000,
                       ContainerRemove (ctx ?e) ''c-old'' True] \<and>
     (\<forall>newid. onContainerCreate restartFailsDaemon (trace d1) (ctx ?e)
                        (containerConfig ?e) (hostConfig ?e) = Inr newid \<longrightarrow>
                 ResultContainerId (CmdResult (snd (startContainer ?e))) = newid \<and>
                 containerId (snd (startContainer ?e)) = newid \<and>
                 (\<exists>rest. trace (snd (startContainer ?e)) =
                    trace d1 @ ContainerCreate (ctx ?e) (containerConfig ?e) (hostConfig ?e) # rest))"
    ..
  from b0 have b1: "trace d1 = ?tr @ [ContainerRestart (ctx ?e) ''c-old'' 5000000000,
                           ContainerRemove (ctx ?e) ''c-old'' True]"
    by (elim conjE)
  from b0 have b2: "\<forall>newid. onContainerCreate restartFailsDaemon (trace d1) (ctx ?e)
                        (containerConfig ?e) (hostConfig ?e) = Inr newid \<longrightarrow>
                 ResultContainerId (CmdResult (snd (startContainer ?e))) = newid \<and>
                 containerId (snd (startContainer ?e)) = newid \<and>
                 (\<exists>rest. trace (snd (startContainer ?e)) =
                    trace d1 @ ContainerCreate (ctx ?e) (containerConfig ?e) (hostConfig ?e) # rest)"
    by (elim conjE)
  have "onContainerCreate restartFailsDaemon (trace d1) (ctx ?e)
          (containerConfig ?e) (hostConfig ?e) = Inr ''c-new''"
    by (simp add: testDaemon_def restartFailsDaemon_def)
  from b2 [rule_format, OF this]
  have b34: "ResultContainerId (CmdResult (snd (startContainer ?e))) = ''c-new'' \<and>
     containerId (snd (startContainer ?e)) = ''c-new'' \<and>
     (\<exists>rest. trace (snd (startContainer ?e)) =
                trace d1 @ ContainerCreate (ctx ?e) (containerConfig ?e) (hostConfig ?e) # rest)" .
  from b34 have b3: "ResultContainerId (CmdResult (snd (startContainer ?e))) = ''c-new''"
    by (rule conjunct1)
  from b34 have b4: "\<exists>rest. trace (snd (startContainer ?e)) =
                trace d1 @ ContainerCreate (ctx ?e) (containerConfig ?e) (hostConfig ?e) # rest"
    by (rule conjunct2 [THEN conjunct2])
  from b4 b1 x' have b5: "\<exists>rest. trace (snd (startContainer ?e)) =
     [ContainerInspect JobContext ''c-old'', ContainerRestart JobContext ''c-old'' 5000000000,
      ContainerRemove JobContext ''c-old'' True] @
     ContainerCreate JobContext (containerConfig ?e) (hostConfig ?e) # rest"
    by simp
  from a3 a0 a1 a2 b3 b5 show ?thesis by (intro conjI)
qed

subsection \<open>An inspection that fails (C3)\<close>

text \<open>
  C3, as the code has it. On an executor with a client and a docker option, when the
  inspection of the supplied container fails with an error other than container-not-found,
  \<^verbatim>\<open>tryToResume\<close> panics with that error, and so does \<^verbatim>\<open>startContainer\<close>, right after the
  inspection: no container is restarted or created. \<^verbatim>\<open>Start\<close> recovers the panic and
  returns: the job ends as Exception with the error's message in \<open>Error\<close> and \<^verbatim>\<open>Start\<close>
  returns the error; for the two context errors the job ends as Killed or Timeout, the
  context is reset and \<^verbatim>\<open>Start\<close> returns nil. The only calls after the inspection are the
  cleanup and \<^verbatim>\<open>closeChannels\<close>.
\<close>

theorem inspect_error_fails_job:
  assumes "pullImage (emit (WgAdd 2) d0) = (Inr u, d)"
    and "cli d = Some c"
    and "Docker (inCmd d) = Some opt"
    and "\<not> IsEmptyString (ContainerId (inCmd d))"
    and "onContainerInspect c (trace d) (ctx d) (ContainerId (inCmd d)) = Inl err"
    and "\<not> IsErrContainerNotFound (Some err)"
  shows "tryToResume d = (Inl err, emit (ContainerInspect (ctx d) (ContainerId (inCmd d))) d) \<and>
         startContainer d = (Inl err, emit (ContainerInspect (ctx d) (ContainerId (inCmd d))) d) \<and>
         (\<exists>out d'. Start h fuel d0 = Some (Inr out, d') \<and>
            out = (if err = Canceled \<or> err = DeadlineExceeded then None else Some err) \<and>
            Status (CmdResult d') =
              (if err = Canceled then CmdStatusKilled
               else if err = DeadlineExceeded then CmdStatusTimeout
               else CmdStatusException) \<and>
            (err \<noteq> Canceled \<and> err \<noteq> DeadlineExceeded \<longrightarrow>
               Error (CmdResult d') = errorMessage err) \<and>
            ctx d' = (if err = Canceled \<or> err = DeadlineExceeded then Background else ctx d) \<and>
            trace d' = trace d @ [ContainerInspect (ctx d) (ContainerId (inCmd d))] @
              (if IsDeleteContainer opt then [ContainerRemove (ctx d') (containerId d) True]
               else if IsStopContainer opt then [ContainerStop (ctx d') (containerId d) None]
               else []) @ [CloseChannels])"
proof -
  let ?e = "emit (ContainerInspect (ctx d) (ContainerId (inCmd d))) d"
  have t: "tryToResume d = (Inl err, ?e)"
    using assms(2,4,5,6) by (simp add: tryToResume_def cliCall_Some Let_def)
  then have s: "startContainer d = (Inl err, ?e)" by (simp add: startContainer_def)
  with assms(1) have b: "StartBody h fuel d0 = Some (Inl err, ?e)"
    by (simp add: StartBody_def)
  obtain res d' where e: "StartDeferred h (Inl err) ?e = (res, d')" by force
  have d': "d' = snd (StartDeferred h (Inl err) ?e)" using e by simp
  have c: "cli ?e = Some c" and p: "Docker (inCmd ?e) = Some opt"
    using assms(2,3) by (simp_all add: emit_fields)
  note sd = StartDeferred_Some [OF c p e]
  from sd have o2: "res = Inr (if err = Canceled \<or> err = DeadlineExceeded then None else Some err)"
    by (simp add: handleErrors_cases)
  from sd have tr: "trace d' = trace d @ [ContainerInspect (ctx d) (ContainerId (inCmd d))] @
              (if IsDeleteContainer opt then [ContainerRemove (ctx d') (containerId d) True]
               else if IsStopContainer opt then [ContainerStop (ctx d') (containerId d) None]
               else []) @ [CloseChannels]"
    by (simp add: emit_fields)
  have s2: "Status (CmdResult d') =
              (if err = Canceled then CmdStatusKilled
               else if err = DeadlineExceeded then CmdStatusTimeout
               else CmdStatusException)"
    by (simp add: d' StartDeferred_result handleErrors_cases toTimeOutStatus_def
          toKilledStatus_def toErrorStatus_def)
  have e2: "err \<noteq> Canceled \<and> err \<noteq> DeadlineExceeded \<longrightarrow>
               Error (CmdResult d') = errorMessage err"
    by (simp add: d' StartDeferred_result handleErrors_cases toErrorStatus_def)
  have c2: "ctx d' = (if err = Canceled \<or> err = DeadlineExceeded then Background else ctx d)"
    by (simp add: d' StartDeferred_ctx handleErrors_cases toTimeOutStatus_def
          toKilledStatus_def toErrorStatus_def emit_fields)
  from b e o2
  have st: "Start h fuel d0 =
      Some (Inr (if err = Canceled \<or> err = DeadlineExceeded then None else Some err), d')"
    by (simp add: Start_def)
  from t s st s2 e2 c2 tr show ?thesis by blast
qed

theorem inspect_error_fails_job_witness:
  "\<exists>d'. Start testHost 1 (readyExecutor inspectFailsDaemon resumeCmd) =
        Some (Inr (Some (OtherError ''daemon not reachable'')), d') \<and>
      Status (CmdResult d') = CmdStatusException \<and>
      Error (CmdResult d') = ''daemon not reachable'' \<and>
      trace d' = [WgAdd 2, ImagePull JobContext ''docker.io/library/ubuntu:18.04'',
                  WriteLog ''pulled'', ContainerInspect JobContext ''c-old'',
                  ContainerRemove JobContext [] True, CloseChannels]"
proof -
  let ?d0 = "readyExecutor inspectFailsDaemon resumeCmd"
  let ?opt = "\<lparr>Image = ''ubuntu:18.04'', Entrypoint = [''/bin/bash''], Ports = [],
            NetworkMode = [], IsStopContainer = True, IsDeleteContainer = True\<rparr>"
  have "\<exists>d. pullImage (emit (WgAdd 2) ?d0) = (Inr (), d) \<and> cli d = Some inspectFailsDaemon \<and>
          Docker (inCmd d) = Some ?opt \<and>
          \<not> IsEmptyString (ContainerId (inCmd d)) \<and>
          onContainerInspect inspectFailsDaemon (trace d) (ctx d) (ContainerId (inCmd d)) =
            Inl (OtherError ''daemon not reachable'') \<and>
          trace d = [WgAdd 2, ImagePull JobContext ''docker.io/library/ubuntu:18.04'',
                  WriteLog ''pulled''] \<and> ctx d = JobContext \<and> ContainerId (inCmd d) = ''c-old''
          \<and> containerId d = []"
    by (simp add: consts_defs fixture_defs exec_defs Let_def)
  then obtain d where p: "pullImage (emit (WgAdd 2) ?d0) = (Inr (), d)"
    and c: "cli d = Some inspectFailsDaemon"
    and o: "Docker (inCmd d) = Some ?opt"
    and n: "\<not> IsEmptyString (ContainerId (inCmd d))"
    and i: "onContainerInspect inspectFailsDaemon (trace d) (ctx d) (ContainerId (inCmd d)) =
            Inl (OtherError ''daemon not reachable'')"
    and f: "trace d = [WgAdd 2, ImagePull JobContext ''docker.io/library/ubuntu:18.04'',
                  WriteLog ''pulled'']" "ctx d = JobContext" "ContainerId (inCmd d) = ''c-old''"
         "containerId d = []"
    by (elim exE conjE)
  have e: "\<not> IsErrContainerNotFound (Some (OtherError ''daemon not reachable''))" by simp
  from inspect_error_fails_job [OF p c o n i e, of testHost 1]
  obtain out d' where r: "Start testHost 1 ?d0 = Some (Inr out, d')"
    "out = Some (OtherError ''daemon not reachable'')"
    "Status (CmdResult d') = CmdStatusException"
    "Error (CmdResult d') = ''daemon not reachable''"
    "ctx d' = JobContext"
    "trace d' = trace d @ [ContainerInspect (ctx d) (ContainerId (inCmd d))] @
       [ContainerRemove (ctx d') (containerId d) True] @ [CloseChannels]"
    using f by auto
  with f show ?thesis by simp
qed

text \<open>
  The claim as stated, that the executor goes on to create a fresh container and the job
  is not failed, fails on a daemon that cannot be reached for the inspection: the job ends
  as Exception with the error's message, \<^verbatim>\<open>Start\<close> returns the error, and the trace holds no
  \<^verbatim>\<open>ContainerCreate\<close>.
\<close>

theorem inspect_error_no_fresh_container:
  "map_option fst (Start testHost 1 (readyExecutor inspectFailsDaemon resumeCmd)) =
     Some (Inr (Some (OtherError ''daemon not reachable''))) \<and>
   map_option (Status \<circ> CmdResult \<circ> snd)
     (Start testHost 1 (readyExecutor inspectFailsDaemon resumeCmd)) = Some CmdStatusException \<and>
   map_option (Error \<circ> CmdResult \<circ> snd)
     (Start testHost 1 (readyExecutor inspectFailsDaemon resumeCmd)) =
     Some ''daemon not reachable'' \<and>
   map_option (trace \<circ> snd) (Start testHost 1 (readyExecutor inspectFailsDaemon resumeCmd)) =
     Some [WgAdd 2, ImagePull JobContext ''docker.io/library/ubuntu:18.04'',
           WriteLog ''pulled'', ContainerInspect JobContext ''c-old'',
           ContainerRemove JobContext [] True, CloseChannels]"
  by (simp add: consts_defs fixture_defs exec_defs Let_def)

subsection \<open>One terminal status (C4)\<close>

text \<open>
  C4. Once the result holds a terminal status (Success, Exception, Killed or Timeout),
  the end of \<^verbatim>\<open>Start\<close> changes nothing: it returns nil and leaves the executor as it is,
  so neither the status nor the code of the first signal is overwritten by the exit code
  that arrived later, and the deferred function leaves the result alone as well; it
  passes the nil on, unless the executor holds a client and its command has no docker
  option, where the cleanup panics. When the result holds no terminal status, the end of
  \<^verbatim>\<open>Start\<close> assigns one from the exit code. Every end of \<^verbatim>\<open>Start\<close>, by return or by the
  panic of the cleanup, leaves a terminal status in the result.
\<close>

theorem first_terminal_status_wins:
  "(IsFinishStatus (CmdResult d) \<longrightarrow>
      StartFinish h exitCode d = (None, d) \<and>
      fst (StartDeferred h (Inr None) d) =
        (if cli d \<noteq> None \<and> Docker (inCmd d) = None then Inl NilPointerDereference
         else Inr None) \<and>
      CmdResult (snd (StartDeferred h (Inr None) d)) = CmdResult d) \<and>
   (\<not> IsFinishStatus (CmdResult d) \<longrightarrow>
      StartFinish h exitCode d = (None, toFinishStatus h exitCode d) \<and>
      IsFinishStatus (CmdResult (toFinishStatus h exitCode d))) \<and>
   (\<forall>fuel d0 res d'. Start h fuel d0 = Some (res, d') \<longrightarrow> IsFinishStatus (CmdResult d'))"
proof (intro conjI impI allI)
  assume "IsFinishStatus (CmdResult d)"
  then show "StartFinish h exitCode d = (None, d)" by (simp add: StartFinish_def)
next
  show "fst (StartDeferred h (Inr None) d) =
        (if cli d \<noteq> None \<and> Docker (inCmd d) = None then Inl NilPointerDereference
         else Inr None)"
    by (simp add: StartDeferred_out)
next
  show "CmdResult (snd (StartDeferred h (Inr None) d)) = CmdResult d"
    by (simp add: StartDeferred_result)
next
  assume "\<not> IsFinishStatus (CmdResult d)"
  then show "StartFinish h exitCode d = (None, toFinishStatus h exitCode d)"
    by (simp add: StartFinish_def)
next
  show "IsFinishStatus (CmdResult (toFinishStatus h exitCode d))"
    by (simp add: IsFinishStatus_def toFinishStatus_def)
next
  fix fuel d0 res d'
  assume "Start h fuel d0 = Some (res, d')"
  then show "IsFinishStatus (CmdResult d')" by (rule Start_ends_terminal)
qed

theorem first_terminal_status_wins_witness:
  "IsFinishStatus (CmdResult (toKilledStatus testHost (readyExecutor testDaemon testCmd))) \<and>
   Status (CmdResult (snd (StartFinish testHost 0
             (toKilledStatus testHost (readyExecutor testDaemon testCmd))))) = CmdStatusKilled \<and>
   Code (CmdResult (snd (StartFinish testHost 0
             (toKilledStatus testHost (readyExecutor testDaemon testCmd))))) = -1 \<and>
   \<not> IsFinishStatus (CmdResult (readyExecutor testDaemon testCmd)) \<and>
   Status (CmdResult (snd (StartFinish testHost 0 (readyExecutor testDaemon testCmd)))) =
     CmdStatusSuccess \<and>
   (\<exists>d'. Start testHost 1 (readyExecutor testDaemon testCmd) = Some (Inr None, d') \<and>
      IsFinishStatus (CmdResult d'))"
proof -
  let ?k = "toKilledStatus testHost (readyExecutor testDaemon testCmd)"
  let ?d = "readyExecutor testDaemon testCmd"
  have k: "IsFinishStatus (CmdResult ?k)"
    by (simp add: IsFinishStatus_def toKilledStatus_def)
  have sk: "Status (CmdResult ?k) = CmdStatusKilled" "Code (CmdResult ?k) = -1"
    by (simp_all add: toKilledStatus_def CmdExitCodeKilled_def)
  have n: "\<not> IsFinishStatus (CmdResult ?d)"
    by (simp add: consts_defs fixture_defs exec_defs Let_def)
  have "\<exists>d'. Start testHost 1 ?d = Some (Inr None, d')"
    by (simp add: consts_defs fixture_defs exec_defs Let_def)
  then obtain d' where s: "Start testHost 1 ?d = Some (Inr None, d')" by blast
  from first_terminal_status_wins [of ?k testHost 0] k
  have a: "StartFinish testHost 0 ?k = (None, ?k)" by blast
  from first_terminal_status_wins [of ?d testHost 0] n
  have b: "StartFinish testHost 0 ?d = (None, toFinishStatus testHost 0 ?d)" by blast
  from first_terminal_status_wins [of ?d testHost 0] s
  have c: "IsFinishStatus (CmdResult d')" by blast
  have "Status (CmdResult (toFinishStatus testHost 0 ?d)) = CmdStatusSuccess"
    by (simp add: toFinishStatus_def CmdExitCodeSuccess_def)
  with a b c k sk n s show ?thesis by auto
qed

subsection \<open>Exit codes (C5)\<close>

text \<open>
  C5. The constants of \<^verbatim>\<open>domain/cmd.go\<close> are \<^verbatim>\<open>CmdExitCodeTimeOut = -100\<close>,
  \<^verbatim>\<open>CmdExitCodeKilled = -1\<close>, \<^verbatim>\<open>CmdExitCodeUnknow = -1\<close> and \<^verbatim>\<open>CmdExitCodeSuccess = 0\<close>.
  Whenever \<^verbatim>\<open>Start\<close> ends, the code of the result is as follows. When the body did not
  panic, the child exited normally: the daemon answered the last inspection of the exec
  session with "not running", and the code is the exit code of that answer, the
  interpreter's exit status, with status Success for 0 and Exception otherwise. When the
  body panicked with the deadline error, the status is Timeout and the code -100; with
  the cancellation error, Killed and -1; with any other error the exit status was not
  determined, the status is Exception and the code -1. The setters write these codes: the
  exit status given to \<^verbatim>\<open>toFinishStatus\<close>, -100, -1 and -1.
\<close>

theorem exit_codes:
  "CmdExitCodeTimeOut = -100 \<and> CmdExitCodeKilled = -1 \<and> CmdExitCodeUnknow = -1 \<and>
   CmdExitCodeSuccess = 0 \<and>
   (\<forall>fuel d0 res d' r d1. Start h fuel d0 = Some (res, d') \<and> StartBody h fuel d0 = Some (r, d1) \<longrightarrow>
      (case r of
         Inr v \<Rightarrow>
           (\<exists>c tr eid i. cli d0 = Some c \<and>
              trace d1 = tr @ [ContainerExecInspect (ctx d0) eid,
                               CopyFromContainer (ctx d0) (containerId d1) dockerEnvFile] \<and>
              onContainerExecInspect c tr (ctx d0) eid = Inr i \<and> \<not> Running i \<and>
              Code (CmdResult d') = ExitCode i \<and>
              Status (CmdResult d') =
                (if ExitCode i = 0 then CmdStatusSuccess else CmdStatusException))
       | Inl err \<Rightarrow>
           (if err = DeadlineExceeded then
              Status (CmdResult d') = CmdStatusTimeout \<and> Code (CmdResult d') = -100
            else if err = Canceled then
              Status (CmdResult d') = CmdStatusKilled \<and> Code (CmdResult d') = -1
            else Status (CmdResult d') = CmdStatusException \<and> Code (CmdResult d') = -1))) \<and>
   Code (CmdResult (toFinishStatus h exitCode d)) = exitCode \<and>
   Code (CmdResult (toTimeOutStatus h d)) = -100 \<and>
   Code (CmdResult (toKilledStatus h d)) = -1 \<and>
   Code (CmdResult (snd (toErrorStatus h err d))) = -1 \<and>
   Code (CmdResult (snd (handleErrors h DeadlineExceeded d))) = -100 \<and>
   Code (CmdResult (snd (handleErrors h Canceled d))) = -1"
proof -
  have a: "\<forall>fuel d0 res d' r d1.
      Start h fuel d0 = Some (res, d') \<and> StartBody h fuel d0 = Some (r, d1) \<longrightarrow>
      (case r of
         Inr v \<Rightarrow>
           (\<exists>c tr eid i. cli d0 = Some c \<and>
              trace d1 = tr @ [ContainerExecInspect (ctx d0) eid,
                               CopyFromContainer (ctx d0) (containerId d1) dockerEnvFile] \<and>
              onContainerExecInspect c tr (ctx d0) eid = Inr i \<and> \<not> Running i \<and>
              Code (CmdResult d') = ExitCode i \<and>
              Status (CmdResult d') =
                (if ExitCode i = 0 then CmdStatusSuccess else CmdStatusException))
       | Inl err \<Rightarrow>
           (if err = DeadlineExceeded then
              Status (CmdResult d') = CmdStatusTimeout \<and> Code (CmdResult d') = -100
            else if err = Canceled then
              Status (CmdResult d') = CmdStatusKilled \<and> Code (CmdResult d') = -1
            else Status (CmdResult d') = CmdStatusException \<and> Code (CmdResult d') = -1))"
  proof (intro allI impI)
    fix fuel d0 res d' r d1
    assume s: "Start h fuel d0 = Some (res, d') \<and> StartBody h fuel d0 = Some (r, d1)"
    then have d': "d' = snd (StartDeferred h r d1)" by (auto simp: Start_def)
    show "case r of
         Inr v \<Rightarrow>
           (\<exists>c tr eid i. cli d0 = Some c \<and>
              trace d1 = tr @ [ContainerExecInspect (ctx d0) eid,
                               CopyFromContainer (ctx d0) (containerId d1) dockerEnvFile] \<and>
              onContainerExecInspect c tr (ctx d0) eid = Inr i \<and> \<not> Running i \<and>
              Code (CmdResult d') = ExitCode i \<and>
              Status (CmdResult d') =
                (if ExitCode i = 0 then CmdStatusSuccess else CmdStatusException))
       | Inl err \<Rightarrow>
           (if err = DeadlineExceeded then
              Status (CmdResult d') = CmdStatusTimeout \<and> Code (CmdResult d') = -100
            else if err = Canceled then
              Status (CmdResult d') = CmdStatusKilled \<and> Code (CmdResult d') = -1
            else Status (CmdResult d') = CmdStatusException \<and> Code (CmdResult d') = -1)"
    proof (cases r)
      case (Inl err)
      then show ?thesis
        by (simp add: d' StartDeferred_result handleErrors_cases toTimeOutStatus_def
              toKilledStatus_def toErrorStatus_def CmdExitCodeTimeOut_def
              CmdExitCodeKilled_def CmdExitCodeUnknow_def)
    next
      case (Inr v)
      with s have b: "StartBody h fuel d0 = Some (Inr v, d1)" by simp
      have "CmdResult d' = CmdResult d1" by (simp add: d' Inr StartDeferred_result)
      with StartBody_exit_code [OF b] Inr show ?thesis by simp
    qed
  qed
  show ?thesis
    by (intro conjI a)
       (simp_all add: CmdExitCodeTimeOut_def CmdExitCodeKilled_def CmdExitCodeUnknow_def
          CmdExitCodeSuccess_def toFinishStatus_def toTimeOutStatus_def toKilledStatus_def
          toErrorStatus_def handleErrors_def)
qed

theorem exit_codes_witness:
  "(\<exists>d'. Start testHost 2 (readyExecutor exit127Daemon testCmd) = Some (Inr None, d') \<and>
      Code (CmdResult d') = 127 \<and> Status (CmdResult d') = CmdStatusException) \<and>
   (\<exists>d'. Start testHost 2 (readyExecutor deadlineDaemon testCmd) = Some (Inr None, d') \<and>
      Code (CmdResult d') = -100 \<and> Status (CmdResult d') = CmdStatusTimeout) \<and>
   (\<exists>d'. Start testHost 2 (readyExecutor cancelledDaemon testCmd) = Some (Inr None, d') \<and>
      Code (CmdResult d') = -1 \<and> Status (CmdResult d') = CmdStatusKilled) \<and>
   (\<exists>d'. Start testHost 1 (readyExecutor pullFailsDaemon testCmd) =
        Some (Inr (Some (OtherError ''pull access denied'')), d') \<and>
      Code (CmdResult d') = -1 \<and> Status (CmdResult d') = CmdStatusException)"
proof -
  note th = exit_codes [of testHost, THEN conjunct2, THEN conjunct2, THEN conjunct2,
                        THEN conjunct2, THEN conjunct1, rule_format]
  have "\<exists>d' d1. Start testHost 2 (readyExecutor exit127Daemon testCmd) = Some (Inr None, d') \<and>
          StartBody testHost 2 (readyExecutor exit127Daemon testCmd) = Some (Inr None, d1) \<and>
          (\<exists>pre. trace d1 = pre @ [ContainerExecInspect JobContext ''e-1'',
                                   CopyFromContainer JobContext ''c-new'' dockerEnvFile] \<and>
                 inspections pre = 2)"
    by (simp add: consts_defs fixture_defs exec_defs Let_def eval_nat_numeral)
  then obtain e' e1 where
    e: "Start testHost 2 (readyExecutor exit127Daemon testCmd) = Some (Inr None, e')"
       "StartBody testHost 2 (readyExecutor exit127Daemon testCmd) = Some (Inr None, e1)"
    by (elim exE conjE)
  from th [OF conjI [OF e]] obtain c tr eid i where
    i: "cli (readyExecutor exit127Daemon testCmd) = Some c"
       "onContainerExecInspect c tr (ctx (readyExecutor exit127Daemon testCmd)) eid = Inr i"
       "\<not> Running i" "Code (CmdResult e') = ExitCode i"
       "Status (CmdResult e') = (if ExitCode i = 0 then CmdStatusSuccess else CmdStatusException)"
    by auto
  have "cli (readyExecutor exit127Daemon testCmd) = Some exit127Daemon"
    by (simp add: consts_defs fixture_defs exec_defs Let_def)
  with i(1) have "c = exit127Daemon" by simp
  with i(2,3) have "ExitCode i = 127"
    by (auto simp: exit127Daemon_def runningThen_def testDaemon_def split: if_splits)
  with e(1) i(4,5)
  have a: "\<exists>d'. Start testHost 2 (readyExecutor exit127Daemon testCmd) = Some (Inr None, d') \<and>
      Code (CmdResult d') = 127 \<and> Status (CmdResult d') = CmdStatusException"
    by auto
  have "\<exists>d' d1. Start testHost 2 (readyExecutor deadlineDaemon testCmd) = Some (Inr None, d') \<and>
          StartBody testHost 2 (readyExecutor deadlineDaemon testCmd) =
            Some (Inl DeadlineExceeded, d1)"
    by (simp add: consts_defs fixture_defs exec_defs Let_def eval_nat_numeral)
  then obtain t' t1 where
    t: "Start testHost 2 (readyExecutor deadlineDaemon testCmd) = Some (Inr None, t')"
       "StartBody testHost 2 (readyExecutor deadlineDaemon testCmd) =
          Some (Inl DeadlineExceeded, t1)"
    by (elim exE conjE)
  from th [OF conjI [OF t]] t(1)
  have b: "\<exists>d'. Start testHost 2 (readyExecutor deadlineDaemon testCmd) = Some (Inr None, d') \<and>
      Code (CmdResult d') = -100 \<and> Status (CmdResult d') = CmdStatusTimeout"
    by auto
  have "\<exists>d' d1. Start testHost 2 (readyExecutor cancelledDaemon testCmd) = Some (Inr None, d') \<and>
          StartBody testHost 2 (readyExecutor cancelledDaemon testCmd) = Some (Inl Canceled, d1)"
    by (simp add: consts_defs fixture_defs exec_defs Let_def eval_nat_numeral)
  then obtain k' k1 where
    k: "Start testHost 2 (readyExecutor cancelledDaemon testCmd) = Some (Inr None, k')"
       "StartBody testHost 2 (readyExecutor cancelledDaemon testCmd) = Some (Inl Canceled, k1)"
    by (elim exE conjE)
  from th [OF conjI [OF k]] k(1)
  have c: "\<exists>d'. Start testHost 2 (readyExecutor cancelledDaemon testCmd) = Some (Inr None, d') \<and>
      Code (CmdResult d') = -1 \<and> Status (CmdResult d') = CmdStatusKilled"
    by auto
  have "\<exists>d' d1. Start testHost 1 (readyExecutor pullFailsDaemon testCmd) =
          Some (Inr (Some (OtherError ''pull access denied'')), d') \<and>
          StartBody testHost 1 (readyExecutor pullFailsDaemon testCmd) =
            Some (Inl (OtherError ''pull access denied''), d1)"
    by (simp add: consts_defs fixture_defs exec_defs Let_def)
  then obtain p' p1 where
    p: "Start testHost 1 (readyExecutor pullFailsDaemon testCmd) =
          Some (Inr (Some (OtherError ''pull access denied'')), p')"
       "StartBody testHost 1 (readyExecutor pullFailsDaemon testCmd) =
            Some (Inl (OtherError ''pull access denied''), p1)"
    by (elim exE conjE)
  from th [OF conjI [OF p]] p(1)
  have d: "\<exists>d'. Start testHost 1 (readyExecutor pullFailsDaemon testCmd) =
        Some (Inr (Some (OtherError ''pull access denied'')), d') \<and>
      Code (CmdResult d') = -1 \<and> Status (CmdResult d') = CmdStatusException"
    by auto
  from a b c d show ?thesis by (intro conjI)
qed

subsection \<open>Image references (C6)\<close>

lemma strings_Contains_char: "strings_Contains s [x] = (x \<in> set s)"
  by (induction s) auto

text \<open>
  C6. For every image reference, \<^verbatim>\<open>pullImage\<close> resolves the full reference by putting
  \<^verbatim>\<open>docker.io/\<close> in front of an image name that contains a \<^verbatim>\<open>/\<close>, and \<^verbatim>\<open>docker.io/library/\<close>
  in front of any other; with a client and a configuration, the \<^verbatim>\<open>ImagePull\<close> that
  \<^verbatim>\<open>pullImage\<close> issues, as its first call, carries that reference for the configured image.
\<close>

theorem pullImage_full_reference:
  "fullRef img =
     (if CHR ''/'' \<in> set img then ''docker.io/'' @ img else ''docker.io/library/'' @ img) \<and>
   (\<forall>d cfg c. containerConfig d = Some cfg \<and> cli d = Some c \<longrightarrow>
      (\<exists>rest. trace (snd (pullImage d)) =
         trace d @ ImagePull (ctx d) (fullRef (ConfigImage cfg)) # rest))"
proof (intro conjI allI impI)
  show "fullRef img =
     (if CHR ''/'' \<in> set img then ''docker.io/'' @ img else ''docker.io/library/'' @ img)"
    by (simp add: fullRef_def strings_Contains_char)
next
  fix d :: DockerExecutor and cfg c
  assume a: "containerConfig d = Some cfg \<and> cli d = Some c"
  then show "\<exists>rest. trace (snd (pullImage d)) =
         trace d @ ImagePull (ctx d) (fullRef (ConfigImage cfg)) # rest"
    by (cases "onImagePull c (trace d) (ctx d) (fullRef (ConfigImage cfg))")
       (simp_all add: pullImage_def cliCall_Some writeLog_def emit_fields)
qed

theorem pullImage_full_reference_witness:
  "fullRef ''ubuntu:18.04'' = ''docker.io/library/ubuntu:18.04'' \<and>
   fullRef ''flowci/gosdk:1.0'' = ''docker.io/flowci/gosdk:1.0'' \<and>
   trace (snd (pullImage (readyExecutor testDaemon testCmd))) =
     [ImagePull JobContext ''docker.io/library/ubuntu:18.04'', WriteLog ''pulled'']"
proof -
  have "fullRef ''ubuntu:18.04'' = ''docker.io/library/ubuntu:18.04''"
    using pullImage_full_reference [of "''ubuntu:18.04''"] by simp
  moreover have "fullRef ''flowci/gosdk:1.0'' = ''docker.io/flowci/gosdk:1.0''"
    using pullImage_full_reference [of "''flowci/gosdk:1.0''"] by simp
  moreover have "trace (snd (pullImage (readyExecutor testDaemon testCmd))) =
     [ImagePull JobContext ''docker.io/library/ubuntu:18.04'', WriteLog ''pulled'']"
    by (simp add: consts_defs fixture_defs exec_defs Let_def)
  ultimately show ?thesis by simp
qed

subsection \<open>The job directory (C7)\<close>

text \<open>
  C7, as the code has it. \<^verbatim>\<open>initConfig\<close> sets the work dir to
  \<^verbatim>\<open>filepath.Join("/ws", util.ParseString(FlowId))\<close> and stores it under \<^verbatim>\<open>AGENT_JOB_DIR\<close>;
  when \<^verbatim>\<open>initConfig\<close> does not panic, the container configuration has that work dir and
  its \<open>Env\<close> holds \<^verbatim>\<open>AGENT_JOB_DIR=\<close> followed by it. The work dir is \<^verbatim>\<open>/ws\<close> when the
  parsed flow id is empty, and \<^verbatim>\<open>/ws/\<close> followed by the parsed flow id when that is a
  single path element (not empty, without \<^verbatim>\<open>/\<close>, neither \<^verbatim>\<open>.\<close> nor \<^verbatim>\<open>..\<close>). The
  configuration reaches the daemon with the container that \<^verbatim>\<open>startContainer\<close> creates:
  when \<^verbatim>\<open>tryToResume\<close> answers false, the next call is \<^verbatim>\<open>ContainerCreate\<close> with that
  configuration; when it answers true, \<^verbatim>\<open>startContainer\<close> has inspected and restarted the
  container of the command and made no other call, so a resumed container is given no
  environment by this command.
\<close>

theorem initConfig_job_dir:
  assumes "initConfig h d = (r, d')"
    and "flow = ParseString h (FlowId (inCmd d))"
  shows "workDir d' = filepath_Join [dockerWorkspace, flow] \<and>
         map_of (vars d') VarAgentJobDir = Some (workDir d') \<and>
         (r = Inr () \<longrightarrow>
            (\<exists>cfg. containerConfig d' = Some cfg \<and> WorkingDir cfg = workDir d' \<and>
                   VarAgentJobDir @ ''='' @ workDir d' \<in> set (Env cfg))) \<and>
         (flow = [] \<longrightarrow> workDir d' = ''/ws'') \<and>
         (flow \<noteq> [] \<and> CHR ''/'' \<notin> set flow \<and> flow \<noteq> ''.'' \<and> flow \<noteq> ''..'' \<longrightarrow>
            workDir d' = ''/ws/'' @ flow) \<and>
         (\<forall>x c r2 x'. cli x = Some c \<and> containerConfig x = containerConfig d' \<and>
              startContainer x = (r2, x') \<longrightarrow>
            (case fst (tryToResume x) of
               Inl p \<Rightarrow> r2 = Inl p
             | Inr True \<Rightarrow>
                 r2 = Inr () \<and>
                 trace x' = trace x @
                   [ContainerInspect (ctx x) (ContainerId (inCmd x)),
                    ContainerRestart (ctx x) (ContainerId (inCmd x)) (5 * Second)]
             | Inr False \<Rightarrow>
                 (\<exists>rest. trace x' = trace (snd (tryToResume x)) @
                    ContainerCreate (ctx x) (containerConfig d') (hostConfig x) # rest)))"
proof -
  let ?wd = "filepath_Join [dockerWorkspace, flow]"
  let ?vs = "AList.update VarAgentPluginDir dockerPluginDir
               (AList.update VarAgentJobDir ?wd (vars d))"
  have m: "map_of ?vs VarAgentJobDir = Some ?wd"
    by (simp add: update_conv' VarAgentJobDir_def VarAgentPluginDir_def)
  then have e: "VarAgentJobDir @ ''='' @ ?wd \<in> set (ToStringArray ?vs)"
    by (force simp: ToStringArray_def dest: map_of_SomeD)
  have w: "workDir d' = ?wd \<and> vars d' = ?vs \<and>
           (r = Inr () \<longrightarrow>
            (\<exists>cfg. containerConfig d' = Some cfg \<and> WorkingDir cfg = ?wd \<and>
                   Env cfg = ToStringArray ?vs))"
  proof (cases "Docker (inCmd d)")
    case None
    with assms show ?thesis by (auto simp: initConfig_def Let_def)
  next
    case (Some docker)
    show ?thesis
    proof (cases "ParsePortSpecs h (Ports docker)")
      case (Inl err)
      with assms Some show ?thesis by (auto simp: initConfig_def Let_def)
    next
      case (Inr ports)
      obtain portSet portMap where p: "ports = (portSet, portMap)" by force
      from assms Some Inr p obtain vs hc d4 where b: "bindVolumes vs hc d4 = (r, d')"
        and d4: "workDir d4 = ?wd" "vars d4 = ?vs"
          "\<exists>cfg. containerConfig d4 = Some cfg \<and> WorkingDir cfg = ?wd \<and>
                 Env cfg = ToStringArray ?vs"
        by (auto simp: initConfig_def Let_def)
      from bindVolumes_frame [OF b] d4 show ?thesis by simp
    qed
  qed
  have s: "\<forall>x c r2 x'. cli x = Some c \<and> containerConfig x = containerConfig d' \<and>
              startContainer x = (r2, x') \<longrightarrow>
            (case fst (tryToResume x) of
               Inl p \<Rightarrow> r2 = Inl p
             | Inr True \<Rightarrow>
                 r2 = Inr () \<and>
                 trace x' = trace x @
                   [ContainerInspect (ctx x) (ContainerId (inCmd x)),
                    ContainerRestart (ctx x) (ContainerId (inCmd x)) (5 * Second)]
             | Inr False \<Rightarrow>
                 (\<exists>rest. trace x' = trace (snd (tryToResume x)) @
                    ContainerCreate (ctx x) (containerConfig d') (hostConfig x) # rest))"
  proof (intro allI impI)
    fix x c r2 x'
    assume a: "cli x = Some c \<and> containerConfig x = containerConfig d' \<and>
               startContainer x = (r2, x')"
    obtain rr x1 where p: "tryToResume x = (rr, x1)" by force
    from p a have f: "cli x1 = Some c" "ctx x1 = ctx x" "containerConfig x1 = containerConfig x"
        "hostConfig x1 = hostConfig x"
      by (auto simp: tryToResume_Some Let_def emit_fields
            split: if_splits sum.splits option.splits)
    show "case fst (tryToResume x) of
               Inl p \<Rightarrow> r2 = Inl p
             | Inr True \<Rightarrow>
                 r2 = Inr () \<and>
                 trace x' = trace x @
                   [ContainerInspect (ctx x) (ContainerId (inCmd x)),
                    ContainerRestart (ctx x) (ContainerId (inCmd x)) (5 * Second)]
             | Inr False \<Rightarrow>
                 (\<exists>rest. trace x' = trace (snd (tryToResume x)) @
                    ContainerCreate (ctx x) (containerConfig d') (hostConfig x) # rest)"
    proof (cases rr)
      case (Inl e)
      with a p show ?thesis by (simp add: startContainer_def)
    next
      case (Inr b)
      show ?thesis
      proof (cases b)
        case True
        with a p Inr have e: "r2 = Inr ()" "x' = x1" by (simp_all add: startContainer_def)
        from p Inr True a have "trace x1 = trace x @
                   [ContainerInspect (ctx x) (ContainerId (inCmd x)),
                    ContainerRestart (ctx x) (ContainerId (inCmd x)) (5 * Second)]"
          by (auto simp: tryToResume_Some Let_def emit_fields
                split: if_splits sum.splits option.splits)
        with e p Inr True show ?thesis by simp
      next
        case False
        let ?ev = "ContainerCreate (ctx x) (containerConfig d') (hostConfig x)"
        have c1: "cli (emit ?ev x1) = Some c" using f(1) by (simp add: emit_fields)
        from a p Inr False f have "\<exists>rest. trace x' = trace x1 @ ?ev # rest"
          by (auto simp: startContainer_def cliCall_Some [OF f(1)] cliCall_Some PanicIfErr_def
                emit_fields split: sum.splits option.splits)
        with p Inr False show ?thesis by simp
      qed
    qed
  qed
  show ?thesis
  proof (intro conjI impI)
    show "workDir d' = ?wd" using w by simp
    show "map_of (vars d') VarAgentJobDir = Some (workDir d')" using w m by simp
    show "\<exists>cfg. containerConfig d' = Some cfg \<and> WorkingDir cfg = workDir d' \<and>
                   VarAgentJobDir @ ''='' @ workDir d' \<in> set (Env cfg)" if "r = Inr ()"
      using w e that by auto
    show "workDir d' = ''/ws''" if "flow = []"
      using w that by (simp add: filepath_Join_workspace_empty)
    show "workDir d' = ''/ws/'' @ flow"
      if "flow \<noteq> [] \<and> CHR ''/'' \<notin> set flow \<and> flow \<noteq> ''.'' \<and> flow \<noteq> ''..''"
      using w that by (simp add: filepath_Join_workspace_plain)
    show "\<forall>x c r2 x'. cli x = Some c \<and> containerConfig x = containerConfig d' \<and>
              startContainer x = (r2, x') \<longrightarrow>
            (case fst (tryToResume x) of
               Inl p \<Rightarrow> r2 = Inl p
             | Inr True \<Rightarrow>
                 r2 = Inr () \<and>
                 trace x' = trace x @
                   [ContainerInspect (ctx x) (ContainerId (inCmd x)),
                    ContainerRestart (ctx x) (ContainerId (inCmd x)) (5 * Second)]
             | Inr False \<Rightarrow>
                 (\<exists>rest. trace x' = trace (snd (tryToResume x)) @
                    ContainerCreate (ctx x) (containerConfig d') (hostConfig x) # rest))"
      by (rule s)
  qed
qed

theorem initConfig_job_dir_witness:
  "map_of (vars (snd (initConfig testHost (testExecutor\<lparr>cli := Some testDaemon\<rparr>)))) VarAgentJobDir =
     Some ''/ws/flowid'' \<and>
   workDir (snd (initConfig testHost (testExecutor\<lparr>cli := Some testDaemon\<rparr>))) = ''/ws/flowid'' \<and>
   (\<exists>cfg. containerConfig (snd (initConfig testHost (testExecutor\<lparr>cli := Some testDaemon\<rparr>))) =
            Some cfg \<and> ''AGENT_JOB_DIR=/ws/flowid'' \<in> set (Env cfg)) \<and>
   map_of (vars (snd (initConfig testHost
       (testExecutor\<lparr>cli := Some testDaemon, inCmd := testCmd\<lparr>FlowId := []\<rparr>\<rparr>)))) VarAgentJobDir =
     Some ''/ws'' \<and>
   (\<exists>cfg rest. trace (snd (startContainer (readyExecutor testDaemon testCmd))) =
        ContainerCreate JobContext (Some cfg) (hostConfig (readyExecutor testDaemon testCmd)) #
          rest \<and>
      ''AGENT_JOB_DIR=/ws/flowid'' \<in> set (Env cfg)) \<and>
   trace (snd (startContainer (readyExecutor testDaemon resumeCmd))) =
     [ContainerInspect JobContext ''c-old'', ContainerRestart JobContext ''c-old'' (5 * Second)]"
proof -
  let ?d = "testExecutor\<lparr>cli := Some testDaemon\<rparr>"
  let ?e = "testExecutor\<lparr>cli := Some testDaemon, inCmd := testCmd\<lparr>FlowId := []\<rparr>\<rparr>"
  let ?f = "testExecutor\<lparr>cli := Some testDaemon, inCmd := resumeCmd\<rparr>"
  let ?x = "readyExecutor testDaemon testCmd"
  let ?y = "readyExecutor testDaemon resumeCmd"
  have a: "initConfig testHost ?d = (fst (initConfig testHost ?d), snd (initConfig testHost ?d))"
    by simp
  have f: "''flowid'' = ParseString testHost (FlowId (inCmd ?d))"
    by (simp add: fixture_defs)
  have b: "initConfig testHost ?e = (fst (initConfig testHost ?e), snd (initConfig testHost ?e))"
    by simp
  have g: "[] = ParseString testHost (FlowId (inCmd ?e))"
    by (simp add: fixture_defs)
  have c: "initConfig testHost ?f = (fst (initConfig testHost ?f), snd (initConfig testHost ?f))"
    by simp
  have k: "''flowid'' = ParseString testHost (FlowId (inCmd ?f))"
    by (simp add: fixture_defs)
  note t1 = initConfig_job_dir [OF a f] and t2 = initConfig_job_dir [OF b g]
    and t3 = initConfig_job_dir [OF c k]
  have p: "''flowid'' \<noteq> [] \<and> CHR ''/'' \<notin> set ''flowid'' \<and> ''flowid'' \<noteq> ''.'' \<and>
           ''flowid'' \<noteq> ''..''"
    by simp
  from t1 [THEN conjunct2, THEN conjunct2, THEN conjunct2, THEN conjunct2, THEN conjunct1,
           rule_format, OF p]
  have w1: "workDir (snd (initConfig testHost ?d)) = ''/ws/'' @ ''flowid''" .
  from t1 [THEN conjunct2, THEN conjunct1]
  have m1: "map_of (vars (snd (initConfig testHost ?d))) VarAgentJobDir =
          Some (workDir (snd (initConfig testHost ?d)))" .
  from t2 [THEN conjunct2, THEN conjunct2, THEN conjunct2, THEN conjunct1, rule_format, OF refl]
  have w2: "workDir (snd (initConfig testHost ?e)) = ''/ws''" .
  from t2 [THEN conjunct2, THEN conjunct1]
  have m2: "map_of (vars (snd (initConfig testHost ?e))) VarAgentJobDir =
          Some (workDir (snd (initConfig testHost ?e)))" .
  have r1: "fst (initConfig testHost ?d) = Inr ()"
    by (simp add: consts_defs fixture_defs exec_defs Let_def)
  from t1 [THEN conjunct2, THEN conjunct2, THEN conjunct1, rule_format, OF r1]
  have e1: "\<exists>cfg. containerConfig (snd (initConfig testHost ?d)) = Some cfg \<and>
             WorkingDir cfg = workDir (snd (initConfig testHost ?d)) \<and>
             VarAgentJobDir @ ''='' @ workDir (snd (initConfig testHost ?d)) \<in> set (Env cfg)" .
  then obtain cfg where e2: "containerConfig (snd (initConfig testHost ?d)) = Some cfg"
      "''AGENT_JOB_DIR=/ws/flowid'' \<in> set (Env cfg)"
    by (auto simp: w1 VarAgentJobDir_def)
  have hx: "cli ?x = Some testDaemon \<and>
            containerConfig ?x = containerConfig (snd (initConfig testHost ?d)) \<and>
            startContainer ?x = (fst (startContainer ?x), snd (startContainer ?x))"
    by (simp add: consts_defs fixture_defs exec_defs Let_def)
  have qx: "fst (tryToResume ?x) = Inr False" "trace (snd (tryToResume ?x)) = []"
      "ctx ?x = JobContext"
    by (simp_all add: consts_defs fixture_defs exec_defs Let_def)
  from t1 [THEN conjunct2, THEN conjunct2, THEN conjunct2, THEN conjunct2, THEN conjunct2,
           rule_format, OF hx]
  have s1: "\<exists>rest. trace (snd (startContainer ?x)) =
              ContainerCreate JobContext (Some cfg) (hostConfig ?x) # rest"
    by (simp add: qx e2)
  have hy: "cli ?y = Some testDaemon \<and>
            containerConfig ?y = containerConfig (snd (initConfig testHost ?f)) \<and>
            startContainer ?y = (fst (startContainer ?y), snd (startContainer ?y))"
    by (simp add: consts_defs fixture_defs exec_defs Let_def)
  have qy: "fst (tryToResume ?y) = Inr True" "trace ?y = []" "ctx ?y = JobContext"
      "ContainerId (inCmd ?y) = ''c-old''"
    by (simp_all add: consts_defs fixture_defs exec_defs Let_def)
  from t3 [THEN conjunct2, THEN conjunct2, THEN conjunct2, THEN conjunct2, THEN conjunct2,
           rule_format, OF hy]
  have s2: "trace (snd (startContainer ?y)) =
     [ContainerInspect JobContext ''c-old'', ContainerRestart JobContext ''c-old'' (5 * Second)]"
    by (simp add: qy)
  from s1 e2(2) have s3: "\<exists>cfg rest. trace (snd (startContainer ?x)) =
        ContainerCreate JobContext (Some cfg) (hostConfig ?x) # rest \<and>
      ''AGENT_JOB_DIR=/ws/flowid'' \<in> set (Env cfg)"
    by blast
  from e2 have e3: "\<exists>cfg. containerConfig (snd (initConfig testHost ?d)) = Some cfg \<and>
             ''AGENT_JOB_DIR=/ws/flowid'' \<in> set (Env cfg)"
    by blast
  show ?thesis using e3 s3 s2 by (simp add: m1 m2 w1 w2)
qed

text \<open>
  The claim as stated, that \<^verbatim>\<open>AGENT_JOB_DIR\<close> is the workspace path \<^verbatim>\<open>/ws\<close>, fails for the
  command of the test with its flow id \<^verbatim>\<open>flowid\<close>: the variable, and the entry of the
  environment of the container that \<^verbatim>\<open>startContainer\<close> creates, is \<^verbatim>\<open>/ws/flowid\<close>.
\<close>

theorem job_dir_is_not_workspace:
  "map_of (vars (readyExecutor testDaemon testCmd)) VarAgentJobDir = Some ''/ws/flowid'' \<and>
   map_option Env (containerConfig (readyExecutor testDaemon testCmd)) =
     Some [''INPUT_VAR=aaa'', ''AGENT_JOB_DIR=/ws/flowid'', ''AGENT_PLUGIN_DIR=/ws/.plugins''] \<and>
   hd (trace (snd (startContainer (readyExecutor testDaemon testCmd)))) =
     ContainerCreate JobContext (containerConfig (readyExecutor testDaemon testCmd))
       (hostConfig (readyExecutor testDaemon testCmd)) \<and>
   dockerWorkspace = ''/ws'' \<and> ''/ws/flowid'' \<noteq> dockerWorkspace"
  by (simp add: consts_defs fixture_defs exec_defs Let_def)

subsection \<open>Cleanup of the container (C8)\<close>

text \<open>
  C8, as the code has it. Whenever \<^verbatim>\<open>Start\<close> ends, its deferred function has added to the
  trace of the body one of three things. On an executor that holds a Docker client
  (\<^verbatim>\<open>d.cli != nil\<close>, the guard of the deferred function) and whose command carries a docker
  option, \<^verbatim>\<open>Start\<close> returns, with or without an error, after a panic of the body or not,
  and the deferred function has added the cleanup and then \<^verbatim>\<open>closeChannels\<close>, and nothing
  else: a forced \<^verbatim>\<open>ContainerRemove\<close> of the executor's container when
  \<^verbatim>\<open>IsDeleteContainer\<close> is set, whatever \<^verbatim>\<open>IsStopContainer\<close> says; else a \<^verbatim>\<open>ContainerStop\<close>
  when \<^verbatim>\<open>IsStopContainer\<close> is set; else nothing. The call carries the context the executor
  holds at that moment. With a client and a nil docker option, \<^verbatim>\<open>cleanupContainer\<close> panics
  on the nil pointer, after \<^verbatim>\<open>recover\<close>: \<^verbatim>\<open>Start\<close> panics, and neither a cleanup call nor
  \<^verbatim>\<open>closeChannels\<close> has been added. Without a client \<^verbatim>\<open>Start\<close> returns and only
  \<^verbatim>\<open>closeChannels\<close> has been added. (\<open>Start_returns\<close> gives a condition under which
  \<^verbatim>\<open>Start\<close> does end.)
\<close>

theorem cleanup_on_every_exit:
  assumes "Start h fuel d = Some (res, d')"
  shows "\<exists>r d1. StartBody h fuel d = Some (r, d1) \<and> containerId d' = containerId d1 \<and>
           (if cli d = None then (\<exists>out. res = Inr out) \<and> trace d' = trace d1 @ [CloseChannels]
            else case Docker (inCmd d) of
              None \<Rightarrow> res = Inl NilPointerDereference \<and> trace d' = trace d1
            | Some opt \<Rightarrow>
                (\<exists>out. res = Inr out) \<and>
                trace d' = trace d1 @
                  (if IsDeleteContainer opt then
                     [ContainerRemove (ctx d') (containerId d1) True]
                   else if IsStopContainer opt then
                     [ContainerStop (ctx d') (containerId d1) None]
                   else []) @ [CloseChannels])"
proof -
  from assms obtain r d1 where b: "StartBody h fuel d = Some (r, d1)"
    and e: "StartDeferred h r d1 = (res, d')"
    by (auto simp: Start_def split: option.splits)
  from StartBody_frame [OF b] have f: "cli d1 = cli d" "inCmd d1 = inCmd d" by simp_all
  have "containerId d' = containerId d1 \<and>
           (if cli d = None then (\<exists>out. res = Inr out) \<and> trace d' = trace d1 @ [CloseChannels]
            else case Docker (inCmd d) of
              None \<Rightarrow> res = Inl NilPointerDereference \<and> trace d' = trace d1
            | Some opt \<Rightarrow>
                (\<exists>out. res = Inr out) \<and>
                trace d' = trace d1 @
                  (if IsDeleteContainer opt then
                     [ContainerRemove (ctx d') (containerId d1) True]
                   else if IsStopContainer opt then
                     [ContainerStop (ctx d') (containerId d1) None]
                   else []) @ [CloseChannels])"
  proof (cases "cli d")
    case None
    with f have c1: "cli d1 = None" by simp
    obtain out1 x1 where h1:
      "(case r of Inl err \<Rightarrow> handleErrors h err d1 | Inr out \<Rightarrow> (out, d1)) = (out1, x1)"
      by force
    have "containerId x1 = containerId d1 \<and> cli x1 = cli d1"
      using h1 by (cases r) (auto dest: handleErrors_fields)
    with e h1 c1 have "containerId d' = containerId d1"
      by (auto simp: StartDeferred_def closeChannels_def emit_fields)
    with StartDeferred_None [OF c1 e] None show ?thesis by simp
  next
    case (Some c)
    with f have c1: "cli d1 = Some c" by simp
    show ?thesis
    proof (cases "Docker (inCmd d)")
      case None
      with f have "Docker (inCmd d1) = None" by simp
      from StartDeferred_nil_option [OF c1 this e] Some None show ?thesis by simp
    next
      case (Some opt)
      with f have "Docker (inCmd d1) = Some opt" by simp
      from StartDeferred_Some [OF c1 this e] \<open>cli d = Some c\<close> Some show ?thesis by simp
    qed
  qed
  with b show ?thesis by blast
qed

theorem cleanup_on_every_exit_witness:
  "cli (readyExecutor testDaemon testCmd) \<noteq> None \<and>
   map_option IsDeleteContainer (Docker (inCmd (readyExecutor testDaemon testCmd))) = Some True \<and>
   map_option IsStopContainer (Docker (inCmd (readyExecutor testDaemon testCmd))) = Some True \<and>
   (\<exists>d' pre. Start testHost 1 (readyExecutor testDaemon testCmd) = Some (Inr None, d') \<and>
      trace d' = pre @ [ContainerRemove JobContext ''c-new'' True, CloseChannels]) \<and>
   (\<exists>d' pre. Start testHost 2 (readyExecutor cancelledDaemon testCmd) = Some (Inr None, d') \<and>
      trace d' = pre @ [ContainerRemove Background ''c-new'' True, CloseChannels])"
proof -
  let ?d = "readyExecutor testDaemon testCmd"
  have c: "cli ?d \<noteq> None"
    by (simp add: consts_defs fixture_defs exec_defs Let_def)
  have o: "Docker (inCmd ?d) =
      Some \<lparr>Image = ''ubuntu:18.04'', Entrypoint = [''/bin/bash''], Ports = [],
            NetworkMode = [], IsStopContainer = True, IsDeleteContainer = True\<rparr>"
    by (simp add: consts_defs fixture_defs exec_defs Let_def)
  have "\<exists>d'. Start testHost 1 ?d = Some (Inr None, d') \<and> ctx d' = JobContext \<and>
          containerId d' = ''c-new''"
    by (simp add: consts_defs fixture_defs exec_defs Let_def)
  then obtain d' where s: "Start testHost 1 ?d = Some (Inr None, d')"
    and f: "ctx d' = JobContext" "containerId d' = ''c-new''"
    by (elim exE conjE)
  from cleanup_on_every_exit [OF s] c o f
  have a: "\<exists>pre. trace d' = pre @ [ContainerRemove JobContext ''c-new'' True, CloseChannels]"
    by auto
  let ?k = "readyExecutor cancelledDaemon testCmd"
  have ck: "cli ?k \<noteq> None"
    by (simp add: consts_defs fixture_defs exec_defs Let_def)
  have ok: "Docker (inCmd ?k) =
      Some \<lparr>Image = ''ubuntu:18.04'', Entrypoint = [''/bin/bash''], Ports = [],
            NetworkMode = [], IsStopContainer = True, IsDeleteContainer = True\<rparr>"
    by (simp add: consts_defs fixture_defs exec_defs Let_def)
  have "\<exists>d'. Start testHost 2 ?k = Some (Inr None, d') \<and> ctx d' = Background \<and>
          containerId d' = ''c-new''"
    by (simp add: consts_defs fixture_defs exec_defs Let_def eval_nat_numeral)
  then obtain k' where sk: "Start testHost 2 ?k = Some (Inr None, k')"
    and fk: "ctx k' = Background" "containerId k' = ''c-new''"
    by (elim exE conjE)
  from cleanup_on_every_exit [OF sk] ck ok fk
  have b: "\<exists>pre. trace k' = pre @ [ContainerRemove Background ''c-new'' True, CloseChannels]"
    by auto
  from s a have a': "\<exists>d' pre. Start testHost 1 ?d = Some (Inr None, d') \<and>
      trace d' = pre @ [ContainerRemove JobContext ''c-new'' True, CloseChannels]"
    by blast
  from sk b have b': "\<exists>d' pre. Start testHost 2 ?k = Some (Inr None, d') \<and>
      trace d' = pre @ [ContainerRemove Background ''c-new'' True, CloseChannels]"
    by blast
  from c o a' b' show ?thesis by simp
qed

text \<open>
  The claim as stated, on every exit path, fails in two ways. On an executor without a
  client the deferred function skips the cleanup: \<^verbatim>\<open>Start\<close> returns with nothing but
  \<^verbatim>\<open>stdOutWg.Add\<close> and \<^verbatim>\<open>closeChannels\<close> in its trace, though \<^verbatim>\<open>IsDeleteContainer\<close> is set.
  On the executor that a failed \<^verbatim>\<open>Init\<close> leaves for a command without docker option,
  \<^verbatim>\<open>Start\<close> panics in the cleanup, with no cleanup call and no \<^verbatim>\<open>closeChannels\<close>.
\<close>

theorem cleanup_skipped:
  "cli testExecutor = None \<and>
   map_option IsDeleteContainer (Docker (inCmd testExecutor)) = Some True \<and>
   map_option (trace \<circ> snd) (Start testHost 1 testExecutor) = Some [WgAdd 2, CloseChannels] \<and>
   cli failedInitExecutor \<noteq> None \<and>
   Docker (inCmd failedInitExecutor) = None \<and>
   map_option fst (Start testHost 1 failedInitExecutor) = Some (Inl NilPointerDereference) \<and>
   map_option (trace \<circ> snd) (Start testHost 1 failedInitExecutor) = Some [WgAdd 2]"
  by (simp add: consts_defs fixture_defs exec_defs Let_def)

subsection \<open>A failed copy of the env dump (C9)\<close>

text \<open>
  C9. When \<^verbatim>\<open>CopyFromContainer\<close> of the env-dump file returns an error, \<^verbatim>\<open>exportEnv\<close>
  returns without a panic and without recording anything: the executor is as before but
  for the call in its trace, so the result, with its \<open>Output\<close>, \<open>Status\<close> and \<open>Error\<close>, is
  untouched. And there is such a run: on a daemon that fails that copy and nothing else,
  \<^verbatim>\<open>Start\<close> returns no error and the result holds status Success, an empty \<open>Output\<close> and
  an empty \<open>Error\<close>.
\<close>

theorem exportEnv_copy_failure:
  "(\<forall>d c err. cli d = Some c \<and>
       onCopyFromContainer c (trace d) (ctx d) (containerId d) dockerEnvFile = Inl err \<longrightarrow>
       exportEnv h d = (Inr (), emit (CopyFromContainer (ctx d) (containerId d) dockerEnvFile) d) \<and>
       CmdResult (snd (exportEnv h d)) = CmdResult d) \<and>
   (\<exists>d' pre post. Start testHost 1 (readyExecutor copyFailsDaemon testCmd) = Some (Inr None, d') \<and>
       trace d' = pre @ CopyFromContainer JobContext ''c-new'' dockerEnvFile # post \<and>
       Status (CmdResult d') = CmdStatusSuccess \<and> Output (CmdResult d') = [] \<and>
       Error (CmdResult d') = [])"
proof (intro conjI allI impI)
  fix d :: DockerExecutor and c err
  assume a: "cli d = Some c \<and>
       onCopyFromContainer c (trace d) (ctx d) (containerId d) dockerEnvFile = Inl err"
  then show e: "exportEnv h d = (Inr (), emit (CopyFromContainer (ctx d) (containerId d) dockerEnvFile) d)"
    by (simp add: exportEnv_def cliCall_Some)
  show "CmdResult (snd (exportEnv h d)) = CmdResult d" by (simp add: e emit_fields)
next
  have "\<exists>d'. Start testHost 1 (readyExecutor copyFailsDaemon testCmd) = Some (Inr None, d') \<and>
       trace d' = take 11 (trace d') @ CopyFromContainer JobContext ''c-new'' dockerEnvFile # drop 12 (trace d') \<and>
       Status (CmdResult d') = CmdStatusSuccess \<and> Output (CmdResult d') = [] \<and>
       Error (CmdResult d') = []"
    by (simp add: consts_defs fixture_defs exec_defs Let_def)
  then show "\<exists>d' pre post. Start testHost 1 (readyExecutor copyFailsDaemon testCmd) = Some (Inr None, d') \<and>
       trace d' = pre @ CopyFromContainer JobContext ''c-new'' dockerEnvFile # post \<and>
       Status (CmdResult d') = CmdStatusSuccess \<and> Output (CmdResult d') = [] \<and>
       Error (CmdResult d') = []"
    by blast
qed

theorem exportEnv_copy_failure_witness:
  "cli (readyExecutor copyFailsDaemon testCmd) = Some copyFailsDaemon \<and>
   fst (exportEnv testHost (readyExecutor copyFailsDaemon testCmd)) = Inr () \<and>
   CmdResult (snd (exportEnv testHost (readyExecutor copyFailsDaemon testCmd))) =
     CmdResult (readyExecutor copyFailsDaemon testCmd) \<and>
   Output (CmdResult (snd (exportEnv testHost (readyExecutor copyFailsDaemon testCmd)))) = []"
proof -
  let ?d = "readyExecutor copyFailsDaemon testCmd"
  have c: "cli ?d = Some copyFailsDaemon"
    by (simp add: consts_defs fixture_defs exec_defs Let_def)
  have f: "onCopyFromContainer copyFailsDaemon (trace ?d) (ctx ?d) (containerId ?d) dockerEnvFile =
             Inl (OtherError ''no such file'')"
    by (simp add: copyFailsDaemon_def testDaemon_def)
  have o: "Output (CmdResult ?d) = []"
    by (simp add: consts_defs fixture_defs exec_defs Let_def)
  from exportEnv_copy_failure [of testHost, THEN conjunct1, rule_format, OF conjI [OF c f]]
  have "exportEnv testHost ?d =
          (Inr (), emit (CopyFromContainer (ctx ?d) (containerId ?d) dockerEnvFile) ?d) \<and>
        CmdResult (snd (exportEnv testHost ?d)) = CmdResult ?d" .
  with c o show ?thesis by (simp add: emit_fields)
qed

subsection \<open>Command types (C10)\<close>

text \<open>
  C10. The three command-type constants \<^verbatim>\<open>CmdTypeShell\<close>, \<^verbatim>\<open>CmdTypeKill\<close> and
  \<^verbatim>\<open>CmdTypeClose\<close> are all the string \<^verbatim>\<open>SHELL\<close>, so for every \<^verbatim>\<open>CmdIn\<close> the tests "its
  type is shell", "its type is kill" and "its type is close" have the same answer: the
  \<open>Type\<close> field cannot tell the three kinds of command apart.
\<close>

theorem cmd_types_all_shell:
  "CmdTypeShell = ''SHELL'' \<and> CmdTypeKill = ''SHELL'' \<and> CmdTypeClose = ''SHELL'' \<and>
   (\<forall>c :: CmdIn. (Type c = CmdTypeShell) = (Type c = CmdTypeKill) \<and>
                  (Type c = CmdTypeKill) = (Type c = CmdTypeClose))"
  by (simp add: CmdTypeShell_def CmdTypeKill_def CmdTypeClose_def)

theorem cmd_types_all_shell_witness:
  "Type (testCmd\<lparr>Type := CmdTypeKill\<rparr>) = CmdTypeShell \<and>
   Type (testCmd\<lparr>Type := CmdTypeKill\<rparr>) = CmdTypeClose \<and>
   (Type testCmd = CmdTypeShell) = (Type testCmd = CmdTypeKill)"
proof -
  from cmd_types_all_shell
  have "CmdTypeShell = ''SHELL''" "CmdTypeKill = ''SHELL''" "CmdTypeClose = ''SHELL''"
    by blast+
  then show ?thesis by simp
qed

end
